theory Spec2Isabelle
  imports Main
begin

section \<open>Python values used by the time service\<close>

text \<open>
  A Python \<open>str\<close> is a sequence of Unicode code points and a \<open>bytes\<close> object a sequence
  of octets. Code points are natural numbers; octets are HOL characters.
\<close>

type_synonym ustr = "nat list"
type_synonym bytes = "char list"

definition u :: "string \<Rightarrow> ustr" where
  "u s = map of_char s"

datatype py_exception =
    UnicodeDecodeError
  | JSONDecodeError
  | AttributeError
  | TypeError
  | ValueError
  | UnknownTimeZoneError

text \<open>
  The tables of the interpreter's Unicode database that the service reaches through
  \<open>str.lower\<close> and \<open>int\<close>: the lowercasing of a string that is not pure ASCII, and the
  decimal value of a non-ASCII digit. They belong to the interpreter, not to the
  repository, and every result below holds for any such tables.
\<close>

record ucd =
  ucd_lower :: "ustr \<Rightarrow> ustr"
  ucd_decimal :: "nat \<Rightarrow> nat option"

definition is_ascii :: "ustr \<Rightarrow> bool" where
  "is_ascii s = list_all (\<lambda>c. c < 128) s"

subsection \<open>\<open>str\<close> methods\<close>

definition ascii_lower :: "nat \<Rightarrow> nat" where
  "ascii_lower c = (if 65 \<le> c \<and> c \<le> 90 then c + 32 else c)"

text \<open>\<open>s.lower()\<close>: CPython lowers an ASCII string octet by octet and hands any other
  string to the Unicode database.\<close>

definition py_lower :: "ucd \<Rightarrow> ustr \<Rightarrow> ustr" where
  "py_lower U s = (if is_ascii s then map ascii_lower s else ucd_lower U s)"

text \<open>\<open>s.split(sep)\<close> for a one-character separator: the result is never empty.\<close>

fun py_split :: "nat \<Rightarrow> ustr \<Rightarrow> ustr list" where
  "py_split sep [] = [[]]"
| "py_split sep (c # cs) =
     (if c = sep then [] # py_split sep cs
      else (case py_split sep cs of
              [] \<Rightarrow> [[c]]
            | p # ps \<Rightarrow> (c # p) # ps))"

fun py_startswith :: "ustr \<Rightarrow> ustr \<Rightarrow> bool" where
  "py_startswith s [] = True"
| "py_startswith [] (p # ps) = False"
| "py_startswith (c # cs) (p # ps) = (c = p \<and> py_startswith cs ps)"

text \<open>\<open>s.lstrip(chars)\<close> for a one-character set: every leading occurrence goes.\<close>

definition py_lstrip :: "nat \<Rightarrow> ustr \<Rightarrow> ustr" where
  "py_lstrip ch s = dropWhile (\<lambda>c. c = ch) s"

text \<open>\<open>needle in hay\<close> on strings: the substring test.\<close>

fun py_in :: "ustr \<Rightarrow> ustr \<Rightarrow> bool" where
  "py_in needle [] = (needle = [])"
| "py_in needle (c # cs) = (py_startswith (c # cs) needle \<or> py_in needle cs)"

subsection \<open>\<open>bytes.decode("utf-8")\<close>\<close>

definition utf8_cont :: "nat \<Rightarrow> bool" where
  "utf8_cont b = (128 \<le> b \<and> b \<le> 191)"

text \<open>The strict decoder: shortest forms only, no surrogates, nothing above U+10FFFF.\<close>

fun utf8_decode :: "nat list \<Rightarrow> ustr option" where
  "utf8_decode [] = Some []"
| "utf8_decode (b0 # bs) =
     (if b0 < 128 then map_option ((#) b0) (utf8_decode bs)
      else if 194 \<le> b0 \<and> b0 \<le> 223 then
        (case bs of
           b1 # r \<Rightarrow>
             if utf8_cont b1
             then map_option ((#) ((b0 - 192) * 64 + (b1 - 128))) (utf8_decode r)
             else None
         | _ \<Rightarrow> None)
      else if 224 \<le> b0 \<and> b0 \<le> 239 then
        (case bs of
           b1 # b2 # r \<Rightarrow>
             if (if b0 = 224 then 160 else 128) \<le> b1
                \<and> b1 \<le> (if b0 = 237 then 159 else 191) \<and> utf8_cont b2
             then map_option
                    ((#) ((b0 - 224) * 4096 + (b1 - 128) * 64 + (b2 - 128)))
                    (utf8_decode r)
             else None
         | _ \<Rightarrow> None)
      else if 240 \<le> b0 \<and> b0 \<le> 244 then
        (case bs of
           b1 # b2 # b3 # r \<Rightarrow>
             if (if b0 = 240 then 144 else 128) \<le> b1
                \<and> b1 \<le> (if b0 = 244 then 143 else 191)
                \<and> utf8_cont b2 \<and> utf8_cont b3
             then map_option
                    ((#) ((b0 - 240) * 262144 + (b1 - 128) * 4096
                          + (b2 - 128) * 64 + (b3 - 128)))
                    (utf8_decode r)
             else None
         | _ \<Rightarrow> None)
      else None)"

definition py_decode_utf8 :: "bytes \<Rightarrow> py_exception + ustr" where
  "py_decode_utf8 bs =
     (case utf8_decode (map of_char bs) of
        None \<Rightarrow> Inl UnicodeDecodeError
      | Some s \<Rightarrow> Inr s)"

subsection \<open>\<open>int(s, 16)\<close> and \<open>hex(n)\<close>\<close>

definition hex_digit_value :: "nat \<Rightarrow> nat option" where
  "hex_digit_value c =
     (if 48 \<le> c \<and> c \<le> 57 then Some (c - 48)
      else if 97 \<le> c \<and> c \<le> 102 then Some (c - 87)
      else if 65 \<le> c \<and> c \<le> 70 then Some (c - 55)
      else None)"

definition ascii_isspace :: "nat \<Rightarrow> bool" where
  "ascii_isspace c = (c = 32 \<or> (9 \<le> c \<and> c \<le> 13))"

definition unicode_isspace :: "nat \<Rightarrow> bool" where
  "unicode_isspace c =
     (c = 32 \<or> (9 \<le> c \<and> c \<le> 13) \<or> (28 \<le> c \<and> c \<le> 31) \<or> c = 133 \<or> c = 160
      \<or> c = 5760 \<or> (8192 \<le> c \<and> c \<le> 8202) \<or> c = 8232 \<or> c = 8233
      \<or> c = 8239 \<or> c = 8287 \<or> c = 12288)"

text \<open>Before parsing, \<open>int\<close> rewrites a non-ASCII string: Unicode spaces become a blank,
  Unicode decimal digits their ASCII digit, anything else a question mark (which no
  number contains).\<close>

definition to_ascii_number :: "ucd \<Rightarrow> ustr \<Rightarrow> ustr" where
  "to_ascii_number U s =
     (if is_ascii s then s
      else map (\<lambda>ch. if ch < 127 then ch
                     else if unicode_isspace ch then 32
                     else (case ucd_decimal U ch of
                             Some d \<Rightarrow> if d < 10 then 48 + d else 63
                           | None \<Rightarrow> 63)) s)"

text \<open>The digit loop: single underscores between digits, none at the end.\<close>

fun scan_hex_digits :: "nat \<Rightarrow> nat \<Rightarrow> ustr \<Rightarrow> (nat \<times> ustr) option" where
  "scan_hex_digits prev acc [] = (if prev = 95 then None else Some (acc, []))"
| "scan_hex_digits prev acc (c # cs) =
     (if c = 95 then (if prev = 95 then None else scan_hex_digits 95 acc cs)
      else (case hex_digit_value c of
              Some d \<Rightarrow> scan_hex_digits c (16 * acc + d) cs
            | None \<Rightarrow> if prev = 95 then None else Some (acc, c # cs)))"

definition strip_hex_prefix :: "ustr \<Rightarrow> ustr" where
  "strip_hex_prefix s =
     (case s of
        z # x # r \<Rightarrow>
          if z = 48 \<and> (x = 120 \<or> x = 88)
          then (case r of [] \<Rightarrow> r | c # r' \<Rightarrow> if c = 95 then r' else r)
          else s
      | _ \<Rightarrow> s)"

definition py_int16 :: "ucd \<Rightarrow> ustr \<Rightarrow> py_exception + int" where
  "py_int16 U s =
     (let s1 = dropWhile ascii_isspace (to_ascii_number U s);
          negative = (s1 \<noteq> [] \<and> hd s1 = 45);
          s2 = (if s1 \<noteq> [] \<and> (hd s1 = 43 \<or> hd s1 = 45) then tl s1 else s1);
          s3 = strip_hex_prefix s2
      in case s3 of
           [] \<Rightarrow> Inl ValueError
         | c # _ \<Rightarrow>
             if hex_digit_value c = None then Inl ValueError
             else (case scan_hex_digits 0 0 s3 of
                     None \<Rightarrow> Inl ValueError
                   | Some (v, rest) \<Rightarrow>
                       if dropWhile ascii_isspace rest = []
                       then Inr (if negative then - int v else int v)
                       else Inl ValueError))"

definition hex_char :: "nat \<Rightarrow> nat" where
  "hex_char d = (if d < 10 then 48 + d else 87 + d)"

function hex_digits :: "nat \<Rightarrow> ustr" where
  "hex_digits n = (if n < 16 then [hex_char n] else hex_digits (n div 16) @ [hex_char (n mod 16)])"
  by pat_completeness auto
termination
  by (relation "measure id") auto

declare hex_digits.simps [simp del]

function dec_digits :: "nat \<Rightarrow> ustr" where
  "dec_digits n = (if n < 10 then [48 + n] else dec_digits (n div 10) @ [48 + n mod 10])"
  by pat_completeness auto
termination
  by (relation "measure id") auto

declare dec_digits.simps [simp del]

text \<open>\<open>str(n)\<close> and \<open>hex(n)\<close> for an integer.\<close>

definition py_str_int :: "int \<Rightarrow> ustr" where
  "py_str_int n = (if n < 0 then 45 # dec_digits (nat (- n)) else dec_digits (nat n))"

definition py_hex_int :: "int \<Rightarrow> ustr" where
  "py_hex_int n =
     (if n < 0 then u ''-0x'' @ hex_digits (nat (- n)) else u ''0x'' @ hex_digits (nat n))"

section \<open>The \<open>json\<close> module\<close>

text \<open>
  What \<open>json.loads\<close> returns: \<open>None\<close>, a \<open>bool\<close>, an \<open>int\<close>, a \<open>float\<close>, a \<open>str\<close>,
  a \<open>list\<close> or a \<open>dict\<close> with string keys. A float is kept as the numeral it was read
  from (the service compares and converts floats, it never computes with them). A dict
  is its items in insertion order, each key once.

  Two limits of the interpreter are left out: the recursion limit that deeply nested
  input can reach, and the limit on the number of decimal digits of an integer. The
  decoder below is the accelerated one (ASCII digits only, four hexadecimal digits in a
  \<open>\u\<close> escape).
\<close>

datatype json =
    JNull
  | JBool bool
  | JInt int
  | JFloat ustr
  | JString ustr
  | JArray "json list"
  | JObject "(ustr \<times> json) list"

fun dict_set :: "(ustr \<times> json) list \<Rightarrow> ustr \<Rightarrow> json \<Rightarrow> (ustr \<times> json) list" where
  "dict_set [] k v = [(k, v)]"
| "dict_set ((k', v') # d) k v =
     (if k' = k then (k, v) # d else (k', v') # dict_set d k v)"

fun dict_get :: "(ustr \<times> json) list \<Rightarrow> ustr \<Rightarrow> json \<Rightarrow> json" where
  "dict_get [] k dflt = dflt"
| "dict_get ((k', v') # d) k dflt = (if k' = k then v' else dict_get d k dflt)"

subsection \<open>Decoding: the tokens\<close>

datatype token =
    TLBrace | TRBrace | TLBracket | TRBracket | TComma | TColon
  | TScalar json

definition is_digit :: "nat \<Rightarrow> bool" where
  "is_digit c = (48 \<le> c \<and> c \<le> 57)"

definition hex4 :: "nat \<Rightarrow> nat \<Rightarrow> nat \<Rightarrow> nat \<Rightarrow> nat option" where
  "hex4 a b c d =
     (case (hex_digit_value a, hex_digit_value b, hex_digit_value c, hex_digit_value d) of
        (Some x, Some y, Some z, Some w) \<Rightarrow> Some (x * 4096 + y * 256 + z * 16 + w)
      | _ \<Rightarrow> None)"

definition simple_escape :: "nat \<Rightarrow> nat option" where
  "simple_escape e =
     (if e = 34 then Some 34 else if e = 92 then Some 92 else if e = 47 then Some 47
      else if e = 98 then Some 8 else if e = 102 then Some 12 else if e = 110 then Some 10
      else if e = 114 then Some 13 else if e = 116 then Some 9 else None)"

text \<open>The pieces of a string body, up to the closing quote: a plain character, or the
  value of an escape. \<open>\uXXXX\<close> escapes are kept apart so that a surrogate pair can be
  joined afterwards, as the scanner does only for two adjacent escapes.\<close>

datatype piece = Plain nat | Escaped nat

fun scan_pieces :: "ustr \<Rightarrow> (piece list \<times> ustr) option" where
  "scan_pieces [] = None"
| "scan_pieces (c # cs) =
     (if c = 34 then Some ([], cs)
      else if c = 92 then
        (case cs of
           [] \<Rightarrow> None
         | e # r \<Rightarrow>
             if e = 117 then
               (case r of
                  h1 # h2 # h3 # h4 # r' \<Rightarrow>
                    (case hex4 h1 h2 h3 h4 of
                       None \<Rightarrow> None
                     | Some cp \<Rightarrow>
                         map_option (\<lambda>(ps, rest). (Escaped cp # ps, rest)) (scan_pieces r'))
                | _ \<Rightarrow> None)
             else
               (case simple_escape e of
                  None \<Rightarrow> None
                | Some ch \<Rightarrow>
                    map_option (\<lambda>(ps, rest). (Plain ch # ps, rest)) (scan_pieces r)))
      else if c < 32 then None
      else map_option (\<lambda>(ps, rest). (Plain c # ps, rest)) (scan_pieces cs))"

fun join_surrogates :: "piece list \<Rightarrow> ustr" where
  "join_surrogates [] = []"
| "join_surrogates [Plain c] = [c]"
| "join_surrogates [Escaped c] = [c]"
| "join_surrogates (Plain c # p # ps) = c # join_surrogates (p # ps)"
| "join_surrogates (Escaped c # Plain d # ps) = c # d # join_surrogates ps"
| "join_surrogates (Escaped c # Escaped d # ps) =
     (if 55296 \<le> c \<and> c \<le> 56319 \<and> 56320 \<le> d \<and> d \<le> 57343
      then (65536 + (c - 55296) * 1024 + (d - 56320)) # join_surrogates ps
      else c # join_surrogates (Escaped d # ps))"

definition scanstring :: "ustr \<Rightarrow> (ustr \<times> ustr) option" where
  "scanstring s = map_option (\<lambda>(ps, rest). (join_surrogates ps, rest)) (scan_pieces s)"

fun dec_value :: "nat \<Rightarrow> ustr \<Rightarrow> nat" where
  "dec_value acc [] = acc"
| "dec_value acc (c # cs) = dec_value (10 * acc + (c - 48)) cs"

text \<open>A number: \<open>-?(0|[1-9][0-9]*)(\.[0-9]+)?([eE][-+]?[0-9]+)?\<close>, the longest match.
  With a fraction or an exponent it is a float, otherwise an int.\<close>

definition fraction_part :: "ustr \<Rightarrow> ustr" where
  "fraction_part r =
     (case r of
        p # d # r' \<Rightarrow> if p = 46 \<and> is_digit d then p # d # takeWhile is_digit r' else []
      | _ \<Rightarrow> [])"

definition exponent_part :: "ustr \<Rightarrow> ustr" where
  "exponent_part r =
     (case r of
        e # r' \<Rightarrow>
          if e = 101 \<or> e = 69 then
            (let sg = (case r' of
                         g # _ \<Rightarrow> if g = 43 \<or> g = 45 then [g] else []
                       | [] \<Rightarrow> []);
                 ds = takeWhile is_digit (drop (length sg) r')
             in if ds = [] then [] else e # sg @ ds)
          else []
      | [] \<Rightarrow> [])"

definition match_number :: "ustr \<Rightarrow> (json \<times> ustr) option" where
  "match_number s =
     (let negative = (s \<noteq> [] \<and> hd s = 45);
          s1 = (if negative then tl s else s)
      in case s1 of
           [] \<Rightarrow> None
         | c # cs \<Rightarrow>
             if \<not> is_digit c then None
             else
               let ipart = (if c = 48 then [c] else c # takeWhile is_digit cs);
                   r1 = (if c = 48 then cs else dropWhile is_digit cs);
                   frac = fraction_part r1;
                   r2 = drop (length frac) r1;
                   ex = exponent_part r2;
                   r3 = drop (length ex) r2
               in if frac = [] \<and> ex = []
                  then Some (JInt (if negative then - int (dec_value 0 ipart)
                                   else int (dec_value 0 ipart)), r3)
                  else Some (JFloat ((if negative then [45] else []) @ ipart @ frac @ ex), r3))"

definition match_literal :: "ustr \<Rightarrow> (json \<times> nat) option" where
  "match_literal s =
     (if py_startswith s (u ''null'') then Some (JNull, 4)
      else if py_startswith s (u ''true'') then Some (JBool True, 4)
      else if py_startswith s (u ''false'') then Some (JBool False, 5)
      else if py_startswith s (u ''NaN'') then Some (JFloat (u ''NaN''), 3)
      else if py_startswith s (u ''Infinity'') then Some (JFloat (u ''Infinity''), 8)
      else if py_startswith s (u ''-Infinity'') then Some (JFloat (u ''-Infinity''), 9)
      else None)"

definition json_whitespace :: "nat \<Rightarrow> bool" where
  "json_whitespace c = (c = 32 \<or> c = 9 \<or> c = 10 \<or> c = 13)"

definition punctuation :: "nat \<Rightarrow> token option" where
  "punctuation c =
     (if c = 123 then Some TLBrace else if c = 125 then Some TRBrace
      else if c = 91 then Some TLBracket else if c = 93 then Some TRBracket
      else if c = 44 then Some TComma else if c = 58 then Some TColon else None)"

text \<open>One token from the front of the input, with what is left.\<close>

definition next_token :: "nat \<Rightarrow> ustr \<Rightarrow> (token \<times> ustr) option" where
  "next_token c cs =
     (case punctuation c of
        Some t \<Rightarrow> Some (t, cs)
      | None \<Rightarrow>
          if c = 34 then map_option (\<lambda>(s, rest). (TScalar (JString s), rest)) (scanstring cs)
          else (case match_literal (c # cs) of
                  Some (v, n) \<Rightarrow> Some (TScalar v, drop n (c # cs))
                | None \<Rightarrow> map_option (\<lambda>(v, rest). (TScalar v, rest)) (match_number (c # cs))))"

lemma scan_pieces_shorter: "scan_pieces s = Some (ps, r) \<Longrightarrow> length r < length s"
proof (induction s arbitrary: ps r rule: scan_pieces.induct)
  case 1
  then show ?case by simp
next
  case (2 c cs)
  then show ?case
    by (fastforce split: if_splits list.splits option.splits)
qed

lemma scanstring_shorter: "scanstring s = Some (x, r) \<Longrightarrow> length r < length s"
  by (auto simp: scanstring_def dest: scan_pieces_shorter)

lemma match_number_shorter: "match_number s = Some (v, r) \<Longrightarrow> length r < length s"
proof -
  assume a: "match_number s = Some (v, r)"
  have dw: "length (dropWhile is_digit xs) \<le> length xs" for xs :: ustr
    by (rule length_dropWhile_le)
  from a obtain c cs where s1: "(if s \<noteq> [] \<and> hd s = 45 then tl s else s) = c # cs"
    by (auto simp: match_number_def Let_def split: list.splits)
  then have len: "length cs < length s"
    by (cases s) (auto split: if_splits)
  define r1 where "r1 = (if c = 48 then cs else dropWhile is_digit cs)"
  define r2 where "r2 = drop (length (fraction_part r1)) r1"
  from a s1 have "r = drop (length (exponent_part r2)) r2"
    by (auto simp: match_number_def Let_def r1_def r2_def split: if_splits)
  then have "length r \<le> length r1"
    by (simp add: r2_def)
  moreover have "length r1 \<le> length cs"
    using dw [of cs] by (simp add: r1_def)
  ultimately show ?thesis using len by simp
qed

lemma match_literal_positive: "match_literal s = Some (v, n) \<Longrightarrow> 0 < n"
  by (auto simp: match_literal_def split: if_splits)

lemma next_token_shorter: "next_token c cs = Some (t, r) \<Longrightarrow> length r \<le> length cs"
  unfolding next_token_def
  by (auto split: option.splits if_splits
           dest!: scanstring_shorter match_number_shorter match_literal_positive)

function json_lex :: "ustr \<Rightarrow> token list option" where
  "json_lex [] = Some []"
| "json_lex (c # cs) =
     (if json_whitespace c then json_lex cs
      else (case next_token c cs of
              None \<Rightarrow> None
            | Some (t, rest) \<Rightarrow> map_option ((#) t) (json_lex rest)))"
  by pat_completeness auto
termination
  by (relation "measure length") (auto dest: next_token_shorter)

subsection \<open>Decoding: the grammar\<close>

text \<open>
  The values under construction form a stack: an array with the items read so far, or
  an object with its items and the key that waits for its value. A repeated key keeps
  its first position and takes the last value, as a dict does.
\<close>

datatype frame =
    FArray "json list"
  | FObject "(ustr \<times> json) list" "ustr option"

datatype expect = EValue | EArrayStart | EObjectStart | EKey | EColon | EAfter

datatype pstate = Parsing "frame list" expect | Finished json

fun push_value :: "json \<Rightarrow> frame list \<Rightarrow> pstate option" where
  "push_value v [] = Some (Finished v)"
| "push_value v (FArray items # st) = Some (Parsing (FArray (items @ [v]) # st) EAfter)"
| "push_value v (FObject d (Some k) # st) =
     Some (Parsing (FObject (dict_set d k v) None # st) EAfter)"
| "push_value v (FObject d None # st) = None"

fun start_value :: "frame list \<Rightarrow> token \<Rightarrow> pstate option" where
  "start_value st (TScalar v) = push_value v st"
| "start_value st TLBracket = Some (Parsing (FArray [] # st) EArrayStart)"
| "start_value st TLBrace = Some (Parsing (FObject [] None # st) EObjectStart)"
| "start_value st _ = None"

fun take_key :: "frame list \<Rightarrow> token \<Rightarrow> pstate option" where
  "take_key (FObject d None # st) (TScalar (JString k)) =
     Some (Parsing (FObject d (Some k) # st) EColon)"
| "take_key _ _ = None"

fun parse_step :: "pstate \<Rightarrow> token \<Rightarrow> pstate option" where
  "parse_step (Finished v) t = None"
| "parse_step (Parsing st EValue) t = start_value st t"
| "parse_step (Parsing (FArray items # st) EArrayStart) TRBracket = push_value (JArray items) st"
| "parse_step (Parsing st EArrayStart) t = start_value st t"
| "parse_step (Parsing (FObject d None # st) EObjectStart) TRBrace = push_value (JObject d) st"
| "parse_step (Parsing st EObjectStart) t = take_key st t"
| "parse_step (Parsing st EKey) t = take_key st t"
| "parse_step (Parsing st EColon) TColon = Some (Parsing st EValue)"
| "parse_step (Parsing st EColon) t = None"
| "parse_step (Parsing (FArray items # st) EAfter) TComma = Some (Parsing (FArray items # st) EValue)"
| "parse_step (Parsing (FArray items # st) EAfter) TRBracket = push_value (JArray items) st"
| "parse_step (Parsing (FObject d None # st) EAfter) TComma = Some (Parsing (FObject d None # st) EKey)"
| "parse_step (Parsing (FObject d None # st) EAfter) TRBrace = push_value (JObject d) st"
| "parse_step (Parsing st EAfter) t = None"

fun parse_tokens :: "pstate \<Rightarrow> token list \<Rightarrow> json option" where
  "parse_tokens (Finished v) [] = Some v"
| "parse_tokens (Parsing st e) [] = None"
| "parse_tokens ps (t # ts) =
     (case parse_step ps t of None \<Rightarrow> None | Some ps' \<Rightarrow> parse_tokens ps' ts)"

definition json_loads :: "ustr \<Rightarrow> py_exception + json" where
  "json_loads s =
     (case json_lex s of
        None \<Rightarrow> Inl JSONDecodeError
      | Some ts \<Rightarrow>
          (case parse_tokens (Parsing [] EValue) ts of
             None \<Rightarrow> Inl JSONDecodeError
           | Some v \<Rightarrow> Inr v))"

subsection \<open>Encoding\<close>

definition hex4_digits :: "nat \<Rightarrow> ustr" where
  "hex4_digits n =
     [hex_char (n div 4096 mod 16), hex_char (n div 256 mod 16),
      hex_char (n div 16 mod 16), hex_char (n mod 16)]"

text \<open>With \<open>ensure_ascii\<close> (the default) everything outside the printable ASCII range
  is escaped; a code point above U+FFFF becomes a surrogate pair.\<close>

definition escape_ascii :: "nat \<Rightarrow> ustr" where
  "escape_ascii c =
     (if c = 34 then [92, 34] else if c = 92 then [92, 92]
      else if c = 10 then [92, 110] else if c = 13 then [92, 114]
      else if c = 9 then [92, 116] else if c = 8 then [92, 98]
      else if c = 12 then [92, 102]
      else if 32 \<le> c \<and> c \<le> 126 then [c]
      else if c < 65536 then [92, 117] @ hex4_digits c
      else [92, 117] @ hex4_digits (55296 + (c - 65536) div 1024)
           @ [92, 117] @ hex4_digits (56320 + (c - 65536) mod 1024))"

definition encode_basestring_ascii :: "ustr \<Rightarrow> ustr" where
  "encode_basestring_ascii s = [34] @ concat (map escape_ascii s) @ [34]"

fun join_items :: "ustr list \<Rightarrow> ustr" where
  "join_items [] = []"
| "join_items [x] = x"
| "join_items (x # y # ys) = x @ u '', '' @ join_items (y # ys)"

text \<open>\<open>json.dumps\<close> with its default separators. A float is written as the numeral it
  was read from; the service never hands one to the encoder.\<close>

fun json_dumps :: "json \<Rightarrow> ustr" where
  "json_dumps JNull = u ''null''"
| "json_dumps (JBool b) = (if b then u ''true'' else u ''false'')"
| "json_dumps (JInt n) = py_str_int n"
| "json_dumps (JFloat r) = r"
| "json_dumps (JString s) = encode_basestring_ascii s"
| "json_dumps (JArray xs) = [91] @ join_items (map json_dumps xs) @ [93]"
| "json_dumps (JObject d) =
     [123] @ join_items (map (\<lambda>kv. encode_basestring_ascii (fst kv) @ u '': ''
                                      @ json_dumps (snd kv)) d) @ [125]"

declare json_dumps.simps [simp del]

subsection \<open>What the handler asks of a decoded value\<close>

text \<open>\<open>data.get(key, default)\<close>: only a dict has the method.\<close>

definition py_get :: "json \<Rightarrow> ustr \<Rightarrow> json \<Rightarrow> py_exception + json" where
  "py_get data k dflt =
     (case data of
        JObject d \<Rightarrow> Inr (dict_get d k dflt)
      | _ \<Rightarrow> Inl AttributeError)"

text \<open>\<open>hex(x)\<close>: an int, or a bool (which is an int); anything else is a type error.\<close>

definition py_hex :: "json \<Rightarrow> py_exception + ustr" where
  "py_hex x =
     (case x of
        JInt n \<Rightarrow> Inr (py_hex_int n)
      | JBool b \<Rightarrow> Inr (py_hex_int (if b then 1 else 0))
      | _ \<Rightarrow> Inl TypeError)"

definition is_str :: "json \<Rightarrow> bool" where
  "is_str x = (case x of JString _ \<Rightarrow> True | _ \<Rightarrow> False)"

definition str_value :: "json \<Rightarrow> ustr" where
  "str_value x = (case x of JString s \<Rightarrow> s | _ \<Rightarrow> [])"

section \<open>The clock\<close>

text \<open>
  \<open>pytz.timezone(name)\<close> followed by \<open>datetime.now(tz)\<close>: the wall-clock reading in the
  named zone, or nothing when the zone database does not know the name (pytz then
  raises). The reading is the operating system's; its formatting is the service's.
\<close>

record datetime =
  year :: nat
  month :: nat
  day :: nat
  hour :: nat
  minute :: nat
  second :: nat
  tzname :: ustr

type_synonym clock = "ustr \<Rightarrow> datetime option"

definition zero_pad :: "nat \<Rightarrow> nat \<Rightarrow> ustr" where
  "zero_pad w n = replicate (w - length (dec_digits n)) 48 @ dec_digits n"

text \<open>\<open>now.strftime("%Y-%m-%d %H:%M:%S %Z")\<close>: every field zero-padded to its width
  (the year to four digits, as the C library does from the year 1000 on), the name of
  the zone as the zone database gives it.\<close>

definition strftime :: "datetime \<Rightarrow> ustr" where
  "strftime now =
     zero_pad 4 (year now) @ u ''-'' @ zero_pad 2 (month now) @ u ''-'' @ zero_pad 2 (day now)
     @ u '' '' @ zero_pad 2 (hour now) @ u '':'' @ zero_pad 2 (minute now) @ u '':''
     @ zero_pad 2 (second now) @ u '' '' @ tzname now"

section \<open>Configuration\<close>

text \<open>The module-level settings the message handler can see. The broker settings are
  read by \<open>main\<close> and \<open>on_connect\<close> only.\<close>

record config =
  TIMEZONE :: ustr
  TIME_TRIGGER :: ustr
  BOT_NODE_ID :: ustr

definition getenv :: "(ustr \<rightharpoonup> ustr) \<Rightarrow> ustr \<Rightarrow> ustr \<Rightarrow> ustr" where
  "getenv env name dflt = (case env name of None \<Rightarrow> dflt | Some v \<Rightarrow> v)"

definition load_config :: "ucd \<Rightarrow> (ustr \<rightharpoonup> ustr) \<Rightarrow> config" where
  "load_config U env =
     \<lparr> TIMEZONE = getenv env (u ''TIMEZONE'') (u ''UTC''),
       TIME_TRIGGER = py_lower U (getenv env (u ''TIME_TRIGGER'') (u ''!time'')),
       BOT_NODE_ID = getenv env (u ''BOT_NODE_ID'') [] \<rparr>"

definition current_time_str :: "config \<Rightarrow> clock \<Rightarrow> py_exception + ustr" where
  "current_time_str cfg clk =
     (case clk (TIMEZONE cfg) of
        None \<Rightarrow> Inl UnknownTimeZoneError
      | Some now \<Rightarrow> Inr (strftime now))"

definition hex_node_id_to_decimal :: "ucd \<Rightarrow> ustr \<Rightarrow> py_exception + int" where
  "hex_node_id_to_decimal U hex_id = py_int16 U (py_lstrip 33 hex_id)"

section \<open>The message handler\<close>

text \<open>
  What one run of the handler does to the outside: the calls it makes on the logger and
  on the MQTT client, in order, and whether it returns or an exception leaves it. A log
  call is recorded with its level, its format string and its arguments, whether or not
  the level is enabled; \<open>client.publish(topic, payload, qos)\<close> is recorded as such, what
  the client does with it being the transport's business.
\<close>

record message =
  topic :: ustr
  payload :: bytes

datatype log_level = DEBUG | INFO | WARNING | ERROR

datatype log_arg = Str ustr | Exc py_exception | Obj json

datatype call =
    Log log_level ustr "log_arg list"
  | Publish ustr ustr nat

datatype outcome = Returned | Raised py_exception

definition loads_payload :: "bytes \<Rightarrow> py_exception + json" where
  "loads_payload raw =
     (case py_decode_utf8 raw of
        Inl exc \<Rightarrow> Inl exc
      | Inr s \<Rightarrow> json_loads s)"

definition on_message :: "ucd \<Rightarrow> config \<Rightarrow> clock \<Rightarrow> message \<Rightarrow> call list \<times> outcome" where
  "on_message U cfg clk message =
     (let parts = py_split 47 (topic message) in
      if length parts < 6 then ([], Returned)
      else
        let region = parts ! 1; channel = parts ! 4; gateway_hex = parts ! 5 in
        if channel = u ''mqtt'' then ([], Returned)
        else
          (case loads_payload (payload message) of
             Inl exc \<Rightarrow>
               if exc = JSONDecodeError \<or> exc = UnicodeDecodeError
               then ([Log DEBUG (u ''Cannot parse payload on %s: %s'')
                        [Str (topic message), Exc exc]], Returned)
               else ([], Raised exc)
           | Inr data \<Rightarrow>
          (case py_get data (u ''type'') (JString []) of
             Inl exc \<Rightarrow> ([], Raised exc)
           | Inr msg_type \<Rightarrow>
          (case py_get data (u ''payload'') (JString []) of
             Inl exc \<Rightarrow> ([], Raised exc)
           | Inr text \<Rightarrow>
          if msg_type \<noteq> JString (u ''text'') \<or> \<not> is_str text then ([], Returned)
          else if \<not> py_in (TIME_TRIGGER cfg) (py_lower U (str_value text))
          then ([], Returned)
          else
          (case py_get data (u ''from'') JNull of
             Inl exc \<Rightarrow> ([], Raised exc)
           | Inr sender_decimal \<Rightarrow>
          if sender_decimal = JNull
          then ([Log WARNING (u ''Received time request but 'from' field is missing: %s'')
                   [Obj data]], Returned)
          else
          (case py_hex sender_decimal of
             Inl exc \<Rightarrow> ([], Raised exc)
           | Inr sender_hex \<Rightarrow>
          let request =
                Log INFO (u ''Time request from node %s via gateway %s on channel '%s' (%s)'')
                  [Str sender_hex, Str gateway_hex, Str channel, Str region]
          in
          if \<not> py_startswith gateway_hex (u ''!'')
          then ([request,
                 Log WARNING (u ''Unexpected gateway id format: %s'') [Str gateway_hex]],
                Returned)
          else
          (case hex_node_id_to_decimal U gateway_hex of
             Inl exc \<Rightarrow>
               if exc = ValueError
               then ([request,
                      Log ERROR (u ''Cannot convert gateway id '%s' to decimal'')
                        [Str gateway_hex]], Returned)
               else ([request], Raised exc)
           | Inr gateway_decimal \<Rightarrow>
          (case current_time_str cfg clk of
             Inl exc \<Rightarrow> ([request], Raised exc)
           | Inr time_str \<Rightarrow>
          let response =
                JObject [(u ''from'', JInt gateway_decimal),
                         (u ''type'', JString (u ''sendtext'')),
                         (u ''payload'', JString (u ''Current time: '' @ time_str)),
                         (u ''to'', sender_decimal)];
              downlink_topic = u ''msh/'' @ region @ u ''/2/json/mqtt/'';
              payload_json = json_dumps response
          in ([request,
               Publish downlink_topic payload_json 0,
               Log INFO (u ''Published time reply to %s: %s'')
                 [Str downlink_topic, Str payload_json]], Returned)))))))))"

section \<open>Notions the properties speak of\<close>

text \<open>The replies published by a run, in order: topic and payload.\<close>

fun published :: "call list \<Rightarrow> (ustr \<times> ustr) list" where
  "published [] = []"
| "published (Publish t p q # cs) = (t, p) # published cs"
| "published (Log l f a # cs) = published cs"

text \<open>A run that does nothing the outside can see: no log call, no publish, a plain
  return.\<close>

definition silent :: "call list \<times> outcome" where
  "silent = ([], Returned)"

text \<open>The hexadecimal digits: 0 to 9, a to f, A to F.\<close>

definition is_hex_digit :: "nat \<Rightarrow> bool" where
  "is_hex_digit c = (hex_digit_value c \<noteq> None)"

text \<open>The positional base-16 value of a string of hexadecimal digits, most significant
  digit first.\<close>

fun hex_value :: "nat \<Rightarrow> ustr \<Rightarrow> nat" where
  "hex_value acc [] = acc"
| "hex_value acc (c # cs) = hex_value (16 * acc + the (hex_digit_value c)) cs"

text \<open>A valid hex gateway identifier: an exclamation mark, then one or more
  hexadecimal digits.\<close>

definition valid_hex_id :: "ustr \<Rightarrow> bool" where
  "valid_hex_id h = (case h of [] \<Rightarrow> False | c # ds \<Rightarrow> c = 33 \<and> ds \<noteq> [] \<and> list_all is_hex_digit ds)"

text \<open>
  Modelled from the spec: \<open>hexOf\<close>, the rendering of a decimal node identifier as a hex
  identifier. The source has no such function (it only reads hex identifiers); the spec
  writes a hex identifier as an exclamation mark followed by eight lowercase hexadecimal
  digits, so the digits are padded with zeros to eight and never cut.
\<close>

definition hexOf :: "int \<Rightarrow> ustr" where
  "hexOf n = 33 # replicate (8 - length (hex_digits (nat n))) 48 @ hex_digits (nat n)"

text \<open>Concrete surroundings for the examples: Unicode tables that are never consulted on
  ASCII input, the configuration of an empty environment, and a clock that knows UTC.\<close>

definition plain_ucd :: ucd where
  "plain_ucd = \<lparr> ucd_lower = (\<lambda>s. s), ucd_decimal = (\<lambda>c. None) \<rparr>"

definition default_config :: config where
  "default_config = load_config plain_ucd Map.empty"

definition utc_clock :: clock where
  "utc_clock zone =
     (if zone = u ''UTC''
      then Some \<lparr> year = 2024, month = 3, day = 9, hour = 7, minute = 5, second = 0,
                  tzname = u ''UTC'' \<rparr>
      else None)"

text \<open>The six log calls of the handler, by name, with the format strings of the
  source.\<close>

definition log_cannot_parse :: "ustr \<Rightarrow> py_exception \<Rightarrow> call" where
  "log_cannot_parse t exc = Log DEBUG (u ''Cannot parse payload on %s: %s'') [Str t, Exc exc]"

definition log_sender_missing :: "json \<Rightarrow> call" where
  "log_sender_missing data =
     Log WARNING (u ''Received time request but 'from' field is missing: %s'') [Obj data]"

definition log_request :: "ustr \<Rightarrow> ustr \<Rightarrow> ustr \<Rightarrow> ustr \<Rightarrow> call" where
  "log_request sender_hex gateway_hex channel region =
     Log INFO (u ''Time request from node %s via gateway %s on channel '%s' (%s)'')
       [Str sender_hex, Str gateway_hex, Str channel, Str region]"

definition log_gateway_format :: "ustr \<Rightarrow> call" where
  "log_gateway_format gateway_hex =
     Log WARNING (u ''Unexpected gateway id format: %s'') [Str gateway_hex]"

definition log_gateway_value :: "ustr \<Rightarrow> call" where
  "log_gateway_value gateway_hex =
     Log ERROR (u ''Cannot convert gateway id '%s' to decimal'') [Str gateway_hex]"

definition log_published :: "ustr \<Rightarrow> ustr \<Rightarrow> call" where
  "log_published t p = Log INFO (u ''Published time reply to %s: %s'') [Str t, Str p]"

text \<open>The \<open>response\<close> dict of the handler, keys in the order of the source.\<close>

definition response :: "int \<Rightarrow> ustr \<Rightarrow> json \<Rightarrow> json" where
  "response gateway_decimal time_str sender_decimal =
     JObject [(u ''from'', JInt gateway_decimal),
              (u ''type'', JString (u ''sendtext'')),
              (u ''payload'', JString (u ''Current time: '' @ time_str)),
              (u ''to'', sender_decimal)]"

text \<open>\<open>isinstance(x, int)\<close> and \<open>isinstance(x, dict)\<close> on a decoded value; a bool is an
  int in Python.\<close>

definition is_py_int :: "json \<Rightarrow> bool" where
  "is_py_int x = (case x of JInt _ \<Rightarrow> True | JBool _ \<Rightarrow> True | _ \<Rightarrow> False)"

definition is_dict :: "json \<Rightarrow> bool" where
  "is_dict x = (case x of JObject _ \<Rightarrow> True | _ \<Rightarrow> False)"

section \<open>Library facts\<close>

lemma py_startswith_iff: "py_startswith s p \<longleftrightarrow> (\<exists>suf. s = p @ suf)"
  by (induction s p rule: py_startswith.induct) auto

lemma py_in_iff: "py_in needle hay \<longleftrightarrow> (\<exists>pre suf. hay = pre @ needle @ suf)"
proof (induction hay)
  case Nil
  then show ?case by auto
next
  case (Cons c cs)
  show ?case
  proof
    assume "py_in needle (c # cs)"
    then consider "py_startswith (c # cs) needle" | "py_in needle cs" by auto
    then show "\<exists>pre suf. c # cs = pre @ needle @ suf"
    proof cases
      case 1
      then obtain suf where "c # cs = needle @ suf" by (auto simp: py_startswith_iff)
      then have "c # cs = [] @ needle @ suf" by simp
      then show ?thesis by blast
    next
      case 2
      with Cons obtain pre suf where "cs = pre @ needle @ suf" by blast
      then have "c # cs = (c # pre) @ needle @ suf" by simp
      then show ?thesis by blast
    qed
  next
    assume "\<exists>pre suf. c # cs = pre @ needle @ suf"
    then obtain pre suf where e: "c # cs = pre @ needle @ suf" by blast
    show "py_in needle (c # cs)"
    proof (cases pre)
      case Nil
      with e have "py_startswith (c # cs) needle" by (auto simp: py_startswith_iff)
      then show ?thesis by simp
    next
      case (Cons a pre')
      with e have "cs = pre' @ needle @ suf" by simp
      with Cons.IH have "py_in needle cs" by blast
      then show ?thesis by simp
    qed
  qed
qed

lemma py_int16_raises: "py_int16 U s = Inl e \<Longrightarrow> e = ValueError"
  by (auto simp: py_int16_def Let_def split: list.splits if_splits option.splits)

lemma is_hex_digit_bounds: "is_hex_digit c \<Longrightarrow> 48 \<le> c \<and> c \<le> 102 \<and> c \<noteq> 88 \<and> c \<noteq> 95"
  by (auto simp: is_hex_digit_def hex_digit_value_def split: if_splits)

lemma scan_hex_digits_all:
  "list_all is_hex_digit ds \<Longrightarrow> prev \<noteq> 95 \<Longrightarrow> scan_hex_digits prev acc ds = Some (hex_value acc ds, [])"
proof (induction ds arbitrary: prev acc)
  case Nil
  then show ?case by simp
next
  case (Cons c cs)
  then have h: "is_hex_digit c" and t: "list_all is_hex_digit cs" by simp_all
  from h obtain d where d: "hex_digit_value c = Some d" by (auto simp: is_hex_digit_def)
  from h have ne: "c \<noteq> 95" using is_hex_digit_bounds by blast
  show ?case using Cons.IH [OF t ne] d ne by simp
qed

lemma is_ascii_hex: "list_all is_hex_digit ds \<Longrightarrow> is_ascii ds"
  unfolding is_ascii_def
  by (induction ds) (auto dest: is_hex_digit_bounds)

lemma py_int16_hex_digits:
  assumes "list_all is_hex_digit ds" and "ds \<noteq> []"
  shows "py_int16 U ds = Inr (int (hex_value 0 ds))"
proof -
  from assms obtain c cs where ds: "ds = c # cs" by (cases ds) auto
  with assms have c: "is_hex_digit c" by simp
  have b: "48 \<le> c" "c \<le> 102" "c \<noteq> 88" "c \<noteq> 95" using is_hex_digit_bounds [OF c] by auto
  have asc: "to_ascii_number U ds = ds"
    using is_ascii_hex [OF assms(1)] by (simp add: to_ascii_number_def)
  have sp: "\<not> ascii_isspace c" using b by (simp add: ascii_isspace_def)
  have pre: "strip_hex_prefix (c # cs) = c # cs"
  proof (cases cs)
    case Nil
    then show ?thesis by (simp add: strip_hex_prefix_def)
  next
    case (Cons x r)
    with assms ds have "is_hex_digit x" by simp
    then have "x \<noteq> 120" "x \<noteq> 88" using is_hex_digit_bounds [of x] by auto
    with Cons show ?thesis by (simp add: strip_hex_prefix_def)
  qed
  have sc: "scan_hex_digits 0 0 (c # cs) = Some (hex_value 0 (c # cs), [])"
    using scan_hex_digits_all [of "c # cs" 0 0] assms ds by simp
  have nn: "hex_digit_value c \<noteq> None" using c by (simp add: is_hex_digit_def)
  show ?thesis
    unfolding py_int16_def asc
    using sp b pre sc nn by (simp add: ds Let_def del: scan_hex_digits.simps hex_value.simps)
qed

lemma hex_node_id_to_decimal_valid:
  assumes "valid_hex_id h"
  shows "hex_node_id_to_decimal U h = Inr (int (hex_value 0 (tl h)))"
proof -
  from assms obtain ds where h: "h = 33 # ds" and ne: "ds \<noteq> []" and hx: "list_all is_hex_digit ds"
    by (auto simp: valid_hex_id_def split: list.splits)
  from ne hx have "hd ds \<noteq> 33" using is_hex_digit_bounds [of "hd ds"] by (cases ds) auto
  with ne have "py_lstrip 33 h = ds" by (cases ds) (auto simp: py_lstrip_def h)
  then show ?thesis
    using py_int16_hex_digits [OF hx ne] by (simp add: hex_node_id_to_decimal_def h)
qed

lemma hex_digit_value_hex_char: "d < 16 \<Longrightarrow> hex_digit_value (hex_char d) = Some d"
  by (auto simp: hex_digit_value_def hex_char_def)

lemma hex_value_snoc: "hex_value acc (xs @ [c]) = 16 * hex_value acc xs + the (hex_digit_value c)"
  by (induction xs arbitrary: acc) auto

lemma hex_value_hex_digits: "hex_value 0 (hex_digits n) = n"
proof (induction n rule: hex_digits.induct)
  case (1 n)
  show ?case
  proof (cases "n < 16")
    case True
    then show ?thesis by (simp add: hex_digits.simps [of n] hex_digit_value_hex_char)
  next
    case False
    with 1 have "hex_value 0 (hex_digits (n div 16)) = n div 16" by simp
    with False show ?thesis
      by (simp add: hex_digits.simps [of n] hex_value_snoc hex_digit_value_hex_char)
  qed
qed

lemma hex_digits_valid: "list_all is_hex_digit (hex_digits n) \<and> hex_digits n \<noteq> []"
proof (induction n rule: hex_digits.induct)
  case (1 n)
  show ?case
  proof (cases "n < 16")
    case True
    then show ?thesis by (simp add: hex_digits.simps [of n] is_hex_digit_def hex_digit_value_hex_char)
  next
    case False
    with 1 show ?thesis
      by (simp add: hex_digits.simps [of n] is_hex_digit_def hex_digit_value_hex_char)
  qed
qed

lemma hex_value_zeros: "hex_value 0 (replicate k 48 @ xs) = hex_value 0 xs"
  by (induction k) (auto simp: hex_digit_value_def)

lemma valid_hexOf: "valid_hex_id (hexOf n)"
proof -
  have z: "is_hex_digit 48" by (simp add: is_hex_digit_def hex_digit_value_def)
  have a: "list_all is_hex_digit (hex_digits (nat n))" and b: "hex_digits (nat n) \<noteq> []"
    using hex_digits_valid [of "nat n"] by auto
  have c: "list_all is_hex_digit (replicate k 48)" for k
    using z by (induction k) auto
  show ?thesis
    using a b c by (simp add: valid_hex_id_def hexOf_def)
qed

lemma decimal_of_hexOf: "0 \<le> n \<Longrightarrow> hex_node_id_to_decimal U (hexOf n) = Inr n"
  using hex_node_id_to_decimal_valid [OF valid_hexOf, of U n]
  by (simp add: hexOf_def hex_value_zeros hex_value_hex_digits)

lemmas log_defs = log_cannot_parse_def log_sender_missing_def log_request_def
  log_gateway_format_def log_gateway_value_def log_published_def response_def

lemma is_py_int_iff: "is_py_int x \<longleftrightarrow> (\<exists>h. py_hex x = Inr h)"
  by (cases x) (auto simp: is_py_int_def py_hex_def)

lemma py_hex_not_null: "py_hex x = Inr h \<Longrightarrow> x \<noteq> JNull"
  by (auto simp: py_hex_def)

lemma u_eq_iff [simp]: "u s = u t \<longleftrightarrow> s = t"
  by (simp add: u_def inj_map_eq_map inj_of_char)

lemma u_Nil [simp]: "u [] = []"
  by (simp add: u_def)

lemma loads_payload_raises:
  "loads_payload raw = Inl exc \<Longrightarrow> exc = JSONDecodeError \<or> exc = UnicodeDecodeError"
  by (auto simp: loads_payload_def py_decode_utf8_def json_loads_def split: option.splits sum.splits)

lemma trigger_of_environment:
  "TIME_TRIGGER (load_config U env) = py_lower U (getenv env (u ''TIME_TRIGGER'') (u ''!time''))"
  by (simp add: load_config_def)

lemma dec_digits_one: "n < 10 \<Longrightarrow> dec_digits n = [48 + n]"
  by (simp add: dec_digits.simps [of n])

lemma dec_digits_two: "10 \<le> n \<Longrightarrow> n < 100 \<Longrightarrow> dec_digits n = [48 + n div 10, 48 + n mod 10]"
  by (simp add: dec_digits.simps [of n] dec_digits_one div_less_iff_less_mult)

lemma dec_digits_four:
  assumes "1000 \<le> n" and "n \<le> 9999"
  shows "dec_digits n
     = [48 + n div 1000, 48 + n div 100 mod 10, 48 + n div 10 mod 10, 48 + n mod 10]"
proof -
  let ?h = "n div 100"
  have h: "10 \<le> ?h" "?h < 100"
    using assms by (simp_all add: less_eq_div_iff_mult_less_eq div_less_iff_less_mult)
  have t: "\<not> n < 10" "\<not> n div 10 < 10"
    using assms by (simp_all add: div_less_iff_less_mult)
  have c: "n div 10 div 10 = ?h" "?h div 10 = n div 1000"
    by (simp_all add: div_mult2_eq [symmetric])
  have "dec_digits n = dec_digits (n div 10) @ [48 + n mod 10]"
    using t by (simp add: dec_digits.simps [of n])
  also have "dec_digits (n div 10) = dec_digits ?h @ [48 + n div 10 mod 10]"
    using t c by (simp add: dec_digits.simps [of "n div 10"])
  also have "dec_digits ?h = [48 + n div 1000, 48 + ?h mod 10]"
    using h c by (simp add: dec_digits_two)
  finally show ?thesis by simp
qed

lemma zero_pad_two: "n < 100 \<Longrightarrow> zero_pad 2 n = [48 + n div 10, 48 + n mod 10]"
  by (cases "n < 10") (simp_all add: zero_pad_def dec_digits_one dec_digits_two)

lemma zero_pad_four:
  "1000 \<le> n \<Longrightarrow> n \<le> 9999 \<Longrightarrow> zero_pad 4 n
     = [48 + n div 1000, 48 + n div 100 mod 10, 48 + n div 10 mod 10, 48 + n mod 10]"
  by (simp add: zero_pad_def dec_digits_four)

text \<open>The format of the clock text, field by field: 48 is the digit zero, 45 the hyphen,
  32 the blank and 58 the colon.\<close>

lemma strftime_format:
  assumes "1000 \<le> year now" and "year now \<le> 9999" and "month now \<le> 12" and "day now \<le> 31"
    and "hour now \<le> 23" and "minute now \<le> 59" and "second now \<le> 59"
  shows "strftime now
     = [48 + year now div 1000, 48 + year now div 100 mod 10,
        48 + year now div 10 mod 10, 48 + year now mod 10, 45,
        48 + month now div 10, 48 + month now mod 10, 45,
        48 + day now div 10, 48 + day now mod 10, 32,
        48 + hour now div 10, 48 + hour now mod 10, 58,
        48 + minute now div 10, 48 + minute now mod 10, 58,
        48 + second now div 10, 48 + second now mod 10, 32] @ tzname now"
  using assms
  by (simp add: strftime_def zero_pad_two zero_pad_four u_def)

lemma escape_ascii_digit: "d < 10 \<Longrightarrow> escape_ascii (48 + d) = [48 + d]"
  by (simp add: escape_ascii_def)

lemma escape_ascii_separators:
  "escape_ascii 45 = [45]" "escape_ascii 32 = [32]" "escape_ascii 58 = [58]"
  by (simp_all add: escape_ascii_def)

section \<open>The paths through the handler\<close>

text \<open>The accepting path of the handler.\<close>

lemma reply_path:
  assumes "6 \<le> length (py_split 47 (topic m))"
    and "py_split 47 (topic m) ! 4 \<noteq> u ''mqtt''"
    and "loads_payload (payload m) = Inr (JObject d)"
    and "dict_get d (u ''type'') (JString []) = JString (u ''text'')"
    and "dict_get d (u ''payload'') (JString []) = JString p"
    and "py_in (TIME_TRIGGER cfg) (py_lower U p)"
    and "py_hex (dict_get d (u ''from'') JNull) = Inr sender_hex"
    and "py_startswith (py_split 47 (topic m) ! 5) (u ''!'')"
    and "hex_node_id_to_decimal U (py_split 47 (topic m) ! 5) = Inr g"
    and "clk (TIMEZONE cfg) = Some now"
  shows "on_message U cfg clk m =
     ([log_request sender_hex (py_split 47 (topic m) ! 5) (py_split 47 (topic m) ! 4)
         (py_split 47 (topic m) ! 1),
       Publish (u ''msh/'' @ py_split 47 (topic m) ! 1 @ u ''/2/json/mqtt/'')
         (json_dumps (response g (strftime now) (dict_get d (u ''from'') JNull))) 0,
       log_published (u ''msh/'' @ py_split 47 (topic m) ! 1 @ u ''/2/json/mqtt/'')
         (json_dumps (response g (strftime now) (dict_get d (u ''from'') JNull)))],
      Returned)"
  using assms py_hex_not_null [OF assms(7)]
  by (simp add: on_message_def Let_def py_get_def is_str_def str_value_def
        current_time_str_def log_defs)

text \<open>A payload that cannot be decoded is dropped with a debug-level log call.\<close>

lemma undecodable_payload_dropped:
  assumes "6 \<le> length (py_split 47 (topic m))"
    and "py_split 47 (topic m) ! 4 \<noteq> u ''mqtt''"
    and "loads_payload (payload m) = Inl exc"
  shows "on_message U cfg clk m = ([log_cannot_parse (topic m) exc], Returned)"
  using assms loads_payload_raises [OF assms(3)]
  by (auto simp: on_message_def Let_def log_defs)

text \<open>A sender that is present but no integer makes \<open>hex\<close> raise inside the log call.\<close>

lemma sender_not_integer_path:
  assumes "6 \<le> length (py_split 47 (topic m))"
    and "py_split 47 (topic m) ! 4 \<noteq> u ''mqtt''"
    and "loads_payload (payload m) = Inr (JObject d)"
    and "dict_get d (u ''type'') (JString []) = JString (u ''text'')"
    and "dict_get d (u ''payload'') (JString []) = JString p"
    and "py_in (TIME_TRIGGER cfg) (py_lower U p)"
    and "dict_get d (u ''from'') JNull \<noteq> JNull"
    and "\<not> is_py_int (dict_get d (u ''from'') JNull)"
  shows "on_message U cfg clk m = ([], Raised TypeError)"
proof -
  have "py_hex (dict_get d (u ''from'') JNull) = Inl TypeError"
    using assms(8) by (cases "dict_get d (u ''from'') JNull") (auto simp: is_py_int_def py_hex_def)
  then show ?thesis
    using assms
    by (simp add: on_message_def Let_def py_get_def is_str_def str_value_def)
qed

section \<open>Worked inputs\<close>

lemmas lex_defs = next_token_def punctuation_def scanstring_def match_literal_def
  match_number_def json_whitespace_def is_digit_def fraction_part_def exponent_part_def
  simple_escape_def

lemmas loads_defs = loads_payload_def py_decode_utf8_def json_loads_def u_def lex_defs

lemma split_uplink:
  "py_split 47 (u ''msh/EU_868/2/json/LongFast/!aabbccdd'')
     = [u ''msh'', u ''EU_868'', u ''2'', u ''json'', u ''LongFast'', u ''!aabbccdd'']"
  by (simp add: u_def)

lemma loads_time_request:
  \<open>loads_payload ''{"type":"text","payload":"hey !time please","from":123456}''
     = Inr (JObject [(u ''type'', JString (u ''text'')),
                     (u ''payload'', JString (u ''hey !time please'')),
                     (u ''from'', JInt 123456)])\<close>
  by (simp add: loads_defs)

lemma decimal_aabbccdd: "hex_node_id_to_decimal U (u ''!aabbccdd'') = Inr 2864434397"
proof -
  have "valid_hex_id (u ''!aabbccdd'')"
    by (simp add: valid_hex_id_def is_hex_digit_def hex_digit_value_def u_def)
  then show ?thesis
    using hex_node_id_to_decimal_valid [of "u ''!aabbccdd''" U]
    by (simp add: hex_digit_value_def u_def)
qed

lemma hex_123456: "py_hex (JInt 123456) = Inr (u ''0x1e240'')"
  by (simp add: py_hex_def py_hex_int_def hex_digits.simps hex_char_def u_def)

lemma lower_request: "py_lower U (u ''hey !time please'') = u ''hey !time please''"
  by (simp add: py_lower_def is_ascii_def ascii_lower_def u_def)

lemma response_text:
  \<open>json_dumps (response g t s)
     = u ''{"from": '' @ py_str_int g
       @ u '', "type": "sendtext", "payload": "Current time: '' @ concat (map escape_ascii t)
       @ u ''", "to": '' @ json_dumps s @ u ''}''\<close>
  by (simp add: response_def json_dumps.simps encode_basestring_ascii_def escape_ascii_def u_def)

lemma str_2864434397: "py_str_int 2864434397 = u ''2864434397''"
  by (simp add: py_str_int_def dec_digits.simps u_def)

lemma str_123456: "json_dumps (JInt 123456) = u ''123456''"
  by (simp add: json_dumps.simps py_str_int_def dec_digits.simps u_def)

lemma split_no_bang:
  "py_split 47 (u ''msh/EU_868/2/json/LongFast/aabbccdd'')
     = [u ''msh'', u ''EU_868'', u ''2'', u ''json'', u ''LongFast'', u ''aabbccdd'']"
  by (simp add: u_def)

lemma split_bad_hex:
  "py_split 47 (u ''msh/EU_868/2/json/LongFast/!zz'')
     = [u ''msh'', u ''EU_868'', u ''2'', u ''json'', u ''LongFast'', u ''!zz'']"
  by (simp add: u_def)

lemma split_downlink:
  "py_split 47 (u ''msh/US/2/json/mqtt/!aabbccdd'')
     = [u ''msh'', u ''US'', u ''2'', u ''json'', u ''mqtt'', u ''!aabbccdd'']"
  by (simp add: u_def)

lemma split_short:
  "py_split 47 (u ''msh/US/2/json/LongFast'')
     = [u ''msh'', u ''US'', u ''2'', u ''json'', u ''LongFast'']"
  by (simp add: u_def)

lemma loads_array: "loads_payload ''[]'' = Inr (JArray [])"
  by (simp add: loads_defs)

lemma loads_shout:
  \<open>loads_payload ''{"type":"text","payload":"Please send !TIME now","from":123456}''
     = Inr (JObject [(u ''type'', JString (u ''text'')),
                     (u ''payload'', JString (u ''Please send !TIME now'')),
                     (u ''from'', JInt 123456)])\<close>
  by (simp add: loads_defs)

lemma loads_hello:
  \<open>loads_payload ''{"type":"text","payload":"hello there"}''
     = Inr (JObject [(u ''type'', JString (u ''text'')),
                     (u ''payload'', JString (u ''hello there''))])\<close>
  by (simp add: loads_defs)

lemma loads_no_sender:
  \<open>loads_payload ''{"type":"text","payload":"!time"}''
     = Inr (JObject [(u ''type'', JString (u ''text'')),
                     (u ''payload'', JString (u ''!time''))])\<close>
  by (simp add: loads_defs)

lemma loads_text_sender:
  \<open>loads_payload ''{"type":"text","payload":"!time","from":"abc"}''
     = Inr (JObject [(u ''type'', JString (u ''text'')),
                     (u ''payload'', JString (u ''!time'')),
                     (u ''from'', JString (u ''abc''))])\<close>
  by (simp add: loads_defs)

lemma loads_plain_request:
  \<open>loads_payload ''{"type":"text","payload":"!time","from":123456}''
     = Inr (JObject [(u ''type'', JString (u ''text'')),
                     (u ''payload'', JString (u ''!time'')),
                     (u ''from'', JInt 123456)])\<close>
  by (simp add: loads_defs)

lemma default_trigger: "TIME_TRIGGER default_config = u ''!time''"
  by (simp add: default_config_def load_config_def getenv_def py_lower_def is_ascii_def
        ascii_lower_def u_def)

lemma default_timezone: "TIMEZONE default_config = u ''UTC''"
  by (simp add: default_config_def load_config_def getenv_def)

lemma utc_clock_UTC:
  "utc_clock (u ''UTC'')
     = Some \<lparr> year = 2024, month = 3, day = 9, hour = 7, minute = 5, second = 0,
              tzname = u ''UTC'' \<rparr>"
  by (simp add: utc_clock_def)

lemma lower_shout: "py_lower U (u ''Please send !TIME now'') = u ''please send !time now''"
  by (simp add: py_lower_def is_ascii_def ascii_lower_def u_def)

lemma lower_trigger: "py_lower U (u ''!time'') = u ''!time''"
  by (simp add: py_lower_def is_ascii_def ascii_lower_def u_def)

lemma lower_hello: "py_lower U (u ''hello there'') = u ''hello there''"
  by (simp add: py_lower_def is_ascii_def ascii_lower_def u_def)

lemma int16_zz: "py_int16 U (py_lstrip 33 (u ''!zz'')) = Inl ValueError"
  by (simp add: py_int16_def py_lstrip_def to_ascii_number_def is_ascii_def ascii_isspace_def
        strip_hex_prefix_def hex_digit_value_def u_def)

lemma clock_text: "strftime \<lparr> year = 2024, month = 3, day = 9, hour = 7, minute = 5, second = 0,
              tzname = u ''UTC'' \<rparr> = u ''2024-03-09 07:05:00 UTC''"
  by (simp add: strftime_def zero_pad_def dec_digits.simps u_def)

lemma clock_text_escaped:
  "concat (map escape_ascii (u ''2024-03-09 07:05:00 UTC'')) = u ''2024-03-09 07:05:00 UTC''"
  by (simp add: escape_ascii_def u_def)

lemma loads_reply:
  \<open>json_loads (u ''{"from": 2864434397, "type": "sendtext", "payload": "Current time: 2024-03-09 07:05:00 UTC", "to": 123456}'')
     = Inr (JObject [(u ''from'', JInt 2864434397),
                     (u ''type'', JString (u ''sendtext'')),
                     (u ''payload'', JString (u ''Current time: 2024-03-09 07:05:00 UTC'')),
                     (u ''to'', JInt 123456)])\<close>
  by (simp add: loads_defs)

text \<open>The time request of the first end-to-end scenario, for any Unicode tables, any
  configuration with the default trigger and any clock that knows the configured zone.\<close>

lemma time_request_run:
  assumes "TIME_TRIGGER cfg = u ''!time''" and "clk (TIMEZONE cfg) = Some now"
  shows
    \<open>on_message U cfg clk
       \<lparr> topic = u ''msh/EU_868/2/json/LongFast/!aabbccdd'',
         payload = ''{"type":"text","payload":"hey !time please","from":123456}'' \<rparr>
     = ([log_request (u ''0x1e240'') (u ''!aabbccdd'') (u ''LongFast'') (u ''EU_868''),
         Publish (u ''msh/EU_868/2/json/mqtt/'')
           (json_dumps (response 2864434397 (strftime now) (JInt 123456))) 0,
         log_published (u ''msh/EU_868/2/json/mqtt/'')
           (json_dumps (response 2864434397 (strftime now) (JInt 123456)))],
        Returned)\<close>
proof -
  let ?m = \<open>\<lparr> topic = u ''msh/EU_868/2/json/LongFast/!aabbccdd'',
         payload = ''{"type":"text","payload":"hey !time please","from":123456}'' \<rparr>\<close>
  let ?d = "[(u ''type'', JString (u ''text'')),
             (u ''payload'', JString (u ''hey !time please'')),
             (u ''from'', JInt 123456)]"
  have l: "6 \<le> length (py_split 47 (topic ?m))"
    by (simp add: split_uplink)
  have c: "py_split 47 (topic ?m) ! 4 \<noteq> u ''mqtt''"
    by (simp add: split_uplink)
  have d: "loads_payload (payload ?m) = Inr (JObject ?d)"
    using loads_time_request by simp
  have ty: "dict_get ?d (u ''type'') (JString []) = JString (u ''text'')"
    by simp
  have tx: "dict_get ?d (u ''payload'') (JString []) = JString (u ''hey !time please'')"
    by simp
  have "py_in (u ''!time'') (u ''hey !time please'')"
    by (simp add: u_def)
  then have tr: "py_in (TIME_TRIGGER cfg) (py_lower U (u ''hey !time please''))"
    by (simp add: assms(1) lower_request)
  have hx: "py_hex (dict_get ?d (u ''from'') JNull) = Inr (u ''0x1e240'')"
    by (simp add: hex_123456)
  have "py_startswith (u ''!aabbccdd'') (u ''!'')"
    by (simp add: u_def)
  then have st: "py_startswith (py_split 47 (topic ?m) ! 5) (u ''!'')"
    by (simp add: split_uplink)
  have gw: "hex_node_id_to_decimal U (py_split 47 (topic ?m) ! 5) = Inr 2864434397"
    by (simp add: split_uplink decimal_aabbccdd)
  have tp: "u ''msh/'' @ u ''EU_868'' @ u ''/2/json/mqtt/'' = u ''msh/EU_868/2/json/mqtt/''"
    by (simp add: u_def)
  show ?thesis
    using reply_path [where m = ?m and d = ?d and p = "u ''hey !time please''" and cfg = cfg
        and U = U and sender_hex = "u ''0x1e240''" and g = 2864434397 and clk = clk
        and now = now, OF l c d ty tx tr hx st gw assms(2)]
    by (simp add: split_uplink tp)
qed

lemma reply_text:
  \<open>json_dumps (response 2864434397 t (JInt 123456))
     = u ''{"from": 2864434397, "type": "sendtext", "payload": "Current time: ''
       @ concat (map escape_ascii t) @ u ''", "to": 123456}''\<close>
  by (simp add: response_text str_2864434397 str_123456) (simp add: u_def)

lemma default_reply_text:
  \<open>json_dumps (response 2864434397 (u ''2024-03-09 07:05:00 UTC'') (JInt 123456))
     = u ''{"from": 2864434397, "type": "sendtext", "payload": "Current time: 2024-03-09 07:05:00 UTC", "to": 123456}''\<close>
  by (simp add: reply_text clock_text_escaped) (simp add: u_def)

lemma default_run:
  \<open>on_message plain_ucd default_config utc_clock
       \<lparr> topic = u ''msh/EU_868/2/json/LongFast/!aabbccdd'',
         payload = ''{"type":"text","payload":"hey !time please","from":123456}'' \<rparr>
     = ([log_request (u ''0x1e240'') (u ''!aabbccdd'') (u ''LongFast'') (u ''EU_868''),
         Publish (u ''msh/EU_868/2/json/mqtt/'')
           (u ''{"from": 2864434397, "type": "sendtext", "payload": "Current time: 2024-03-09 07:05:00 UTC", "to": 123456}'') 0,
         log_published (u ''msh/EU_868/2/json/mqtt/'')
           (u ''{"from": 2864434397, "type": "sendtext", "payload": "Current time: 2024-03-09 07:05:00 UTC", "to": 123456}'')],
        Returned)\<close>
proof -
  have z: "utc_clock (TIMEZONE default_config)
     = Some \<lparr> year = 2024, month = 3, day = 9, hour = 7, minute = 5, second = 0,
              tzname = u ''UTC'' \<rparr>"
    by (simp only: default_timezone utc_clock_UTC)
  show ?thesis
    using time_request_run [where cfg = default_config and clk = utc_clock and U = plain_ucd,
        OF default_trigger z]
    by (simp only: clock_text default_reply_text)
qed

lemma split_double_bang:
  "py_split 47 (u ''msh/EU_868/2/json/LongFast/!!ff'')
     = [u ''msh'', u ''EU_868'', u ''2'', u ''json'', u ''LongFast'', u ''!!ff'']"
  by (simp add: u_def)

lemmas int16_defs = py_int16_def py_lstrip_def to_ascii_number_def is_ascii_def
  ascii_isspace_def strip_hex_prefix_def hex_digit_value_def hex_node_id_to_decimal_def u_def

text \<open>What \<open>lstrip\<close> and \<open>int\<close> let through: every leading exclamation mark goes, and a
  sign, a \<open>0x\<close> prefix and single underscores are read as Python reads them.\<close>

lemma lenient_gateway_ids:
  "py_int16 U (u ''!ff'') = Inl ValueError"
  "hex_node_id_to_decimal U (u ''!!ff'') = Inr 255"
  "hex_node_id_to_decimal U (u ''!-ff'') = Inr (- 255)"
  "hex_node_id_to_decimal U (u ''!0x_1F'') = Inr 31"
  by (simp_all add: int16_defs)

lemma str_255: "py_str_int 255 = u ''255''"
  by (simp add: py_str_int_def dec_digits.simps u_def)

section \<open>The properties\<close>

text \<open>
  Throughout, \<open>on_message U cfg clk message\<close> is one invocation of the handler: \<open>U\<close> the
  interpreter's Unicode tables, \<open>cfg\<close> the module-level configuration, \<open>clk\<close> the clock.
  Its value is the list of calls made on the logger and the MQTT client, and whether the
  handler returned or an exception left it. The segments of the topic are
  \<open>py_split 47 (topic message)\<close>, 47 being the slash.
\<close>

text \<open>
  \<^bold>\<open>C1\<close> (end-to-end scenario 1). For the inbound message with topic
  \<open>msh/EU_868/2/json/LongFast/!aabbccdd\<close> and payload
  \<open>{"type":"text","payload":"hey !time please","from":123456}\<close>, with the default trigger
  word and a clock whose reading \<open>now\<close> in the configured zone is a date and time as
  \<open>datetime\<close> has them (a four-digit year, month up to 12, day up to 31, hour up to 23,
  minute and second up to 59), the handler publishes exactly one message and returns.
  The message goes to \<open>msh/EU_868/2/json/mqtt/\<close>; its payload is the JSON text of the
  object with \<open>from\<close> 2864434397, \<open>type\<close> \<open>sendtext\<close>, \<open>payload\<close> \<open>Current time: \<close>
  followed by the clock text, and \<open>to\<close> 123456, in this order of keys. The clock text
  is written out from the fields of the reading: four digits of the year, a hyphen, two
  digits of the month, a hyphen, two digits of the day, a blank, two digits each of hour,
  minute and second with colons between, a blank, and the abbreviation of the zone
  (48 is the digit zero, 45 the hyphen, 32 the blank, 58 the colon).
\<close>

theorem time_request_answered:
  assumes "TIME_TRIGGER cfg = u ''!time''" and "clk (TIMEZONE cfg) = Some now"
    and "1000 \<le> year now" and "year now \<le> 9999" and "month now \<le> 12" and "day now \<le> 31"
    and "hour now \<le> 23" and "minute now \<le> 59" and "second now \<le> 59"
  shows
    \<open>published (fst (on_message U cfg clk
       \<lparr> topic = u ''msh/EU_868/2/json/LongFast/!aabbccdd'',
         payload = ''{"type":"text","payload":"hey !time please","from":123456}'' \<rparr>))
     = [(u ''msh/EU_868/2/json/mqtt/'',
         json_dumps (JObject
           [(u ''from'', JInt 2864434397),
            (u ''type'', JString (u ''sendtext'')),
            (u ''payload'', JString (u ''Current time: ''
               @ [48 + year now div 1000, 48 + year now div 100 mod 10,
                  48 + year now div 10 mod 10, 48 + year now mod 10, 45,
                  48 + month now div 10, 48 + month now mod 10, 45,
                  48 + day now div 10, 48 + day now mod 10, 32,
                  48 + hour now div 10, 48 + hour now mod 10, 58,
                  48 + minute now div 10, 48 + minute now mod 10, 58,
                  48 + second now div 10, 48 + second now mod 10, 32]
               @ tzname now)),
            (u ''to'', JInt 123456)]))]
     \<and> snd (on_message U cfg clk
       \<lparr> topic = u ''msh/EU_868/2/json/LongFast/!aabbccdd'',
         payload = ''{"type":"text","payload":"hey !time please","from":123456}'' \<rparr>)
       = Returned
     \<and> json_dumps (JObject
           [(u ''from'', JInt 2864434397),
            (u ''type'', JString (u ''sendtext'')),
            (u ''payload'', JString (u ''Current time: ''
               @ [48 + year now div 1000, 48 + year now div 100 mod 10,
                  48 + year now div 10 mod 10, 48 + year now mod 10, 45,
                  48 + month now div 10, 48 + month now mod 10, 45,
                  48 + day now div 10, 48 + day now mod 10, 32,
                  48 + hour now div 10, 48 + hour now mod 10, 58,
                  48 + minute now div 10, 48 + minute now mod 10, 58,
                  48 + second now div 10, 48 + second now mod 10, 32]
               @ tzname now)),
            (u ''to'', JInt 123456)])
       = u ''{"from": 2864434397, "type": "sendtext", "payload": "Current time: ''
         @ [48 + year now div 1000, 48 + year now div 100 mod 10,
            48 + year now div 10 mod 10, 48 + year now mod 10, 45,
            48 + month now div 10, 48 + month now mod 10, 45,
            48 + day now div 10, 48 + day now mod 10, 32,
            48 + hour now div 10, 48 + hour now mod 10, 58,
            48 + minute now div 10, 48 + minute now mod 10, 58,
            48 + second now div 10, 48 + second now mod 10, 32]
         @ concat (map escape_ascii (tzname now)) @ u ''", "to": 123456}''\<close>
proof -
  let ?T = "[48 + year now div 1000, 48 + year now div 100 mod 10,
            48 + year now div 10 mod 10, 48 + year now mod 10, 45,
            48 + month now div 10, 48 + month now mod 10, 45,
            48 + day now div 10, 48 + day now mod 10, 32,
            48 + hour now div 10, 48 + hour now mod 10, 58,
            48 + minute now div 10, 48 + minute now mod 10, 58,
            48 + second now div 10, 48 + second now mod 10, 32]"
  have f: "strftime now = ?T @ tzname now"
    using assms(3-9) by (rule strftime_format)
  have d: "year now div 1000 < 10" "month now div 10 < 10" "day now div 10 < 10"
    "hour now div 10 < 10" "minute now div 10 < 10" "second now div 10 < 10"
    using assms(3-9) by (simp_all add: div_less_iff_less_mult)
  have e: "concat (map escape_ascii (?T @ tzname now)) = ?T @ concat (map escape_ascii (tzname now))"
    using d by (simp add: escape_ascii_digit escape_ascii_separators)
  show ?thesis
    using time_request_run [where cfg = cfg and clk = clk and U = U and now = now,
        OF assms(1,2)]
      reply_text [of "strftime now"]
    unfolding f e
    by (simp add: log_defs)
qed

theorem time_request_answered_witness:
  \<open>TIME_TRIGGER default_config = u ''!time''
   \<and> utc_clock (TIMEZONE default_config)
       = Some \<lparr> year = 2024, month = 3, day = 9, hour = 7, minute = 5, second = 0,
                tzname = u ''UTC'' \<rparr>
   \<and> published (fst (on_message plain_ucd default_config utc_clock
       \<lparr> topic = u ''msh/EU_868/2/json/LongFast/!aabbccdd'',
         payload = ''{"type":"text","payload":"hey !time please","from":123456}'' \<rparr>))
     = [(u ''msh/EU_868/2/json/mqtt/'',
         u ''{"from": 2864434397, "type": "sendtext", "payload": "Current time: 2024-03-09 07:05:00 UTC", "to": 123456}'')]
   \<and> snd (on_message plain_ucd default_config utc_clock
       \<lparr> topic = u ''msh/EU_868/2/json/LongFast/!aabbccdd'',
         payload = ''{"type":"text","payload":"hey !time please","from":123456}'' \<rparr>)
     = Returned
   \<and> json_loads (u ''{"from": 2864434397, "type": "sendtext", "payload": "Current time: 2024-03-09 07:05:00 UTC", "to": 123456}'')
     = Inr (JObject [(u ''from'', JInt 2864434397),
                     (u ''type'', JString (u ''sendtext'')),
                     (u ''payload'', JString (u ''Current time: 2024-03-09 07:05:00 UTC'')),
                     (u ''to'', JInt 123456)])\<close>
proof -
  let ?now = "\<lparr> year = 2024, month = 3, day = 9, hour = 7, minute = 5, second = 0,
              tzname = u ''UTC'' \<rparr>"
  have z: "utc_clock (TIMEZONE default_config) = Some ?now"
    by (simp only: default_timezone utc_clock_UTC)
  have b: "1000 \<le> year ?now" "year ?now \<le> 9999" "month ?now \<le> 12" "day ?now \<le> 31"
    "hour ?now \<le> 23" "minute ?now \<le> 59" "second ?now \<le> 59"
    by simp_all
  show ?thesis
    using time_request_answered [where cfg = default_config and clk = utc_clock
        and U = plain_ucd and now = ?now, OF default_trigger z b]
      default_trigger z loads_reply
    by (simp add: u_def escape_ascii_def)
qed

text \<open>
  \<^bold>\<open>C2\<close>. The claim is that a payload which is no well-formed JSON object, valid JSON
  of another kind included, is dropped without an exception. For a payload that is not
  valid UTF-8 or not JSON at all this is so (\<open>undecodable_payload_dropped\<close> above). A
  payload that is valid JSON but no object (an array, a number, a string, a boolean,
  null) passes the decoder; the handler then calls \<open>data.get\<close> on a value that has no
  such method, and \<open>AttributeError\<close> leaves the handler, which only catches the two
  decoding errors. Nothing is published and nothing is logged.
\<close>

theorem non_object_payload_raises:
  assumes "6 \<le> length (py_split 47 (topic m))"
    and "py_split 47 (topic m) ! 4 \<noteq> u ''mqtt''"
    and "loads_payload (payload m) = Inr data"
    and "\<not> is_dict data"
  shows "on_message U cfg clk m = ([], Raised AttributeError)"
  using assms
  by (cases data) (simp_all add: on_message_def Let_def py_get_def is_dict_def)

theorem non_object_payload_raises_witness:
  "6 \<le> length (py_split 47 (u ''msh/EU_868/2/json/LongFast/!aabbccdd''))
   \<and> py_split 47 (u ''msh/EU_868/2/json/LongFast/!aabbccdd'') ! 4 \<noteq> u ''mqtt''
   \<and> loads_payload ''[]'' = Inr (JArray [])
   \<and> \<not> is_dict (JArray [])
   \<and> on_message plain_ucd default_config utc_clock
       \<lparr> topic = u ''msh/EU_868/2/json/LongFast/!aabbccdd'', payload = ''[]'' \<rparr>
     = ([], Raised AttributeError)"
proof -
  let ?m = "\<lparr> topic = u ''msh/EU_868/2/json/LongFast/!aabbccdd'', payload = ''[]'' \<rparr>"
  have l: "6 \<le> length (py_split 47 (topic ?m))"
    by (simp add: split_uplink)
  have c: "py_split 47 (topic ?m) ! 4 \<noteq> u ''mqtt''"
    by (simp add: split_uplink)
  have d: "loads_payload (payload ?m) = Inr (JArray [])"
    using loads_array by simp
  have n: "\<not> is_dict (JArray [])"
    by (simp add: is_dict_def)
  show ?thesis
    using l c d n
      non_object_payload_raises [where m = ?m and data = "JArray []" and U = plain_ucd
        and cfg = default_config and clk = utc_clock, OF l c d n]
    by simp
qed

text \<open>
  \<^bold>\<open>C3\<close>. For every inbound message whose topic has at least six segments and whose
  fifth segment, the channel, is exactly \<open>mqtt\<close>, the handler returns without a log call
  and without publishing, whatever the payload bytes are: the payload is not looked at.
\<close>

theorem mqtt_channel_rejected:
  "6 \<le> length (py_split 47 (topic message)) \<Longrightarrow> py_split 47 (topic message) ! 4 = u ''mqtt''
   \<Longrightarrow> on_message U cfg clk message = silent"
  by (simp add: on_message_def silent_def Let_def)

theorem mqtt_channel_rejected_witness:
  \<open>6 \<le> length (py_split 47 (u ''msh/US/2/json/mqtt/!aabbccdd''))
   \<and> py_split 47 (u ''msh/US/2/json/mqtt/!aabbccdd'') ! 4 = u ''mqtt''
   \<and> on_message plain_ucd default_config utc_clock
       \<lparr> topic = u ''msh/US/2/json/mqtt/!aabbccdd'',
         payload = ''{"type":"text","payload":"hey !time please","from":123456}'' \<rparr>
     = silent
   \<and> published (fst silent) = []\<close>
proof -
  let ?m = \<open>\<lparr> topic = u ''msh/US/2/json/mqtt/!aabbccdd'',
         payload = ''{"type":"text","payload":"hey !time please","from":123456}'' \<rparr>\<close>
  have l: "6 \<le> length (py_split 47 (topic ?m))"
    by (simp add: split_downlink)
  have c: "py_split 47 (topic ?m) ! 4 = u ''mqtt''"
    by (simp add: split_downlink)
  show ?thesis
    using l c mqtt_channel_rejected [where message = ?m and U = plain_ucd
        and cfg = default_config and clk = utc_clock, OF l c]
    by (simp add: silent_def)
qed

text \<open>
  \<^bold>\<open>C4\<close>. For every inbound message whose topic splits on the slash into fewer than
  six segments, the handler returns without a log call and without publishing, whatever
  the payload.
\<close>

theorem short_topic_rejected:
  "length (py_split 47 (topic message)) < 6 \<Longrightarrow> on_message U cfg clk message = silent"
  by (simp add: on_message_def silent_def Let_def)

theorem short_topic_rejected_witness:
  \<open>length (py_split 47 (u ''msh/US/2/json/LongFast'')) < 6
   \<and> on_message plain_ucd default_config utc_clock
       \<lparr> topic = u ''msh/US/2/json/LongFast'',
         payload = ''{"type":"text","payload":"hey !time please","from":123456}'' \<rparr>
     = silent
   \<and> published (fst silent) = []\<close>
proof -
  let ?m = \<open>\<lparr> topic = u ''msh/US/2/json/LongFast'',
         payload = ''{"type":"text","payload":"hey !time please","from":123456}'' \<rparr>\<close>
  have l: "length (py_split 47 (topic ?m)) < 6"
    by (simp add: split_short)
  show ?thesis
    using l short_topic_rejected [where message = ?m and U = plain_ucd
        and cfg = default_config and clk = utc_clock, OF l]
    by (simp add: silent_def)
qed


text \<open>
  \<^bold>\<open>C5\<close>. Trigger detection is a case-insensitive substring test. Let the topic have at
  least six segments and a channel other than \<open>mqtt\<close>, and let the payload decode to an
  object of type \<open>text\<close> whose payload is the string \<open>p\<close>. With \<open>w\<close> the trigger word of
  the environment (\<open>!time\<close> when unset), the handler goes beyond the trigger check, that
  is, it does something other than return silently, exactly when the lowercasing of \<open>w\<close>
  occurs as a contiguous substring of the lowercasing of \<open>p\<close>.
\<close>

theorem trigger_detection:
  assumes "6 \<le> length (py_split 47 (topic m))"
    and "py_split 47 (topic m) ! 4 \<noteq> u ''mqtt''"
    and "loads_payload (payload m) = Inr (JObject d)"
    and "dict_get d (u ''type'') (JString []) = JString (u ''text'')"
    and "dict_get d (u ''payload'') (JString []) = JString p"
  shows "on_message U (load_config U env) clk m \<noteq> silent
     \<longleftrightarrow> (\<exists>pre suf. py_lower U p
            = pre @ py_lower U (getenv env (u ''TIME_TRIGGER'') (u ''!time'')) @ suf)"
proof -
  let ?w = "py_lower U (getenv env (u ''TIME_TRIGGER'') (u ''!time''))"
  have "on_message U (load_config U env) clk m \<noteq> silent \<longleftrightarrow> py_in ?w (py_lower U p)"
    using assms
    by (simp add: on_message_def Let_def py_get_def is_str_def str_value_def silent_def
          trigger_of_environment split: sum.splits)
  then show ?thesis
    by (simp add: py_in_iff)
qed

theorem trigger_detection_witness:
  \<open>loads_payload ''{"type":"text","payload":"Please send !TIME now","from":123456}''
     = Inr (JObject [(u ''type'', JString (u ''text'')),
                     (u ''payload'', JString (u ''Please send !TIME now'')),
                     (u ''from'', JInt 123456)])
   \<and> getenv Map.empty (u ''TIME_TRIGGER'') (u ''!time'') = u ''!time''
   \<and> py_lower plain_ucd (u ''Please send !TIME now'')
     = u ''please send '' @ py_lower plain_ucd (u ''!time'') @ u '' now''
   \<and> on_message plain_ucd (load_config plain_ucd Map.empty) utc_clock
       \<lparr> topic = u ''msh/EU_868/2/json/LongFast/!aabbccdd'',
         payload = ''{"type":"text","payload":"Please send !TIME now","from":123456}'' \<rparr>
     \<noteq> silent\<close>
proof -
  let ?m = \<open>\<lparr> topic = u ''msh/EU_868/2/json/LongFast/!aabbccdd'',
         payload = ''{"type":"text","payload":"Please send !TIME now","from":123456}'' \<rparr>\<close>
  let ?d = "[(u ''type'', JString (u ''text'')),
             (u ''payload'', JString (u ''Please send !TIME now'')),
             (u ''from'', JInt 123456)]"
  have l: "6 \<le> length (py_split 47 (topic ?m))"
    by (simp add: split_uplink)
  have c: "py_split 47 (topic ?m) ! 4 \<noteq> u ''mqtt''"
    by (simp add: split_uplink)
  have d: "loads_payload (payload ?m) = Inr (JObject ?d)"
    using loads_shout by simp
  have ty: "dict_get ?d (u ''type'') (JString []) = JString (u ''text'')"
    by simp
  have tx: "dict_get ?d (u ''payload'') (JString []) = JString (u ''Please send !TIME now'')"
    by simp
  have g: "getenv Map.empty (u ''TIME_TRIGGER'') (u ''!time'') = u ''!time''"
    by (simp add: getenv_def)
  have e: "py_lower plain_ucd (u ''Please send !TIME now'')
     = u ''please send '' @ py_lower plain_ucd (u ''!time'') @ u '' now''"
    by (simp add: lower_shout lower_trigger) (simp add: u_def)
  then have "\<exists>pre suf. py_lower plain_ucd (u ''Please send !TIME now'')
     = pre @ py_lower plain_ucd (getenv Map.empty (u ''TIME_TRIGGER'') (u ''!time'')) @ suf"
    unfolding g by blast
  then have "on_message plain_ucd (load_config plain_ucd Map.empty) utc_clock ?m \<noteq> silent"
    using trigger_detection [where m = ?m and d = ?d and p = "u ''Please send !TIME now''"
        and U = plain_ucd and env = Map.empty and clk = utc_clock, OF l c d ty tx]
    by blast
  with loads_shout g e show ?thesis
    by blast
qed

text \<open>
  \<^bold>\<open>C6\<close>. The run of the handler does not depend on the configured bot node
  identifier: two configurations that differ in \<open>BOT_NODE_ID\<close> only give the same calls
  and the same outcome for the same message and clock. Whenever a reply is published,
  it is the JSON text of a response whose \<open>from\<close> field is the result of
  \<open>hex_node_id_to_decimal\<close> on the sixth segment of the inbound topic; and for a valid
  hex identifier that result is the positional base-16 value of its digits.
\<close>

theorem gateway_identity_from_topic:
  "on_message U (cfg\<lparr>BOT_NODE_ID := a\<rparr>) clk message
     = on_message U (cfg\<lparr>BOT_NODE_ID := b\<rparr>) clk message
   \<and> (\<forall>t p. (t, p) \<in> set (published (fst (on_message U cfg clk message))) \<longrightarrow>
        (\<exists>g time_str sender.
           hex_node_id_to_decimal U (py_split 47 (topic message) ! 5) = Inr g
           \<and> p = json_dumps (JObject [(u ''from'', JInt g),
                                       (u ''type'', JString (u ''sendtext'')),
                                       (u ''payload'', JString time_str),
                                       (u ''to'', sender)])))
   \<and> (valid_hex_id h \<longrightarrow> hex_node_id_to_decimal U h = Inr (int (hex_value 0 (tl h))))"
proof (intro conjI)
  show "on_message U (cfg\<lparr>BOT_NODE_ID := a\<rparr>) clk message
     = on_message U (cfg\<lparr>BOT_NODE_ID := b\<rparr>) clk message"
    by (simp add: on_message_def Let_def current_time_str_def cong: sum.case_cong if_cong)
  show "\<forall>t p. (t, p) \<in> set (published (fst (on_message U cfg clk message))) \<longrightarrow>
        (\<exists>g time_str sender.
           hex_node_id_to_decimal U (py_split 47 (topic message) ! 5) = Inr g
           \<and> p = json_dumps (JObject [(u ''from'', JInt g),
                                       (u ''type'', JString (u ''sendtext'')),
                                       (u ''payload'', JString time_str),
                                       (u ''to'', sender)]))"
    unfolding on_message_def Let_def
    by (auto split: sum.splits if_splits)
  show "valid_hex_id h \<longrightarrow> hex_node_id_to_decimal U h = Inr (int (hex_value 0 (tl h)))"
    by (simp add: hex_node_id_to_decimal_valid)
qed

theorem gateway_identity_from_topic_witness:
  \<open>on_message plain_ucd (default_config\<lparr>BOT_NODE_ID := u ''!11111111''\<rparr>) utc_clock
       \<lparr> topic = u ''msh/EU_868/2/json/LongFast/!aabbccdd'',
         payload = ''{"type":"text","payload":"hey !time please","from":123456}'' \<rparr>
     = on_message plain_ucd (default_config\<lparr>BOT_NODE_ID := u ''!22222222''\<rparr>) utc_clock
       \<lparr> topic = u ''msh/EU_868/2/json/LongFast/!aabbccdd'',
         payload = ''{"type":"text","payload":"hey !time please","from":123456}'' \<rparr>
   \<and> (u ''msh/EU_868/2/json/mqtt/'',
       u ''{"from": 2864434397, "type": "sendtext", "payload": "Current time: 2024-03-09 07:05:00 UTC", "to": 123456}'')
     \<in> set (published (fst (on_message plain_ucd default_config utc_clock
       \<lparr> topic = u ''msh/EU_868/2/json/LongFast/!aabbccdd'',
         payload = ''{"type":"text","payload":"hey !time please","from":123456}'' \<rparr>)))
   \<and> hex_node_id_to_decimal plain_ucd
       (py_split 47 (u ''msh/EU_868/2/json/LongFast/!aabbccdd'') ! 5) = Inr 2864434397\<close>
proof -
  let ?m = \<open>\<lparr> topic = u ''msh/EU_868/2/json/LongFast/!aabbccdd'',
         payload = ''{"type":"text","payload":"hey !time please","from":123456}'' \<rparr>\<close>
  have p: \<open>(u ''msh/EU_868/2/json/mqtt/'',
       u ''{"from": 2864434397, "type": "sendtext", "payload": "Current time: 2024-03-09 07:05:00 UTC", "to": 123456}'')
     \<in> set (published (fst (on_message plain_ucd default_config utc_clock ?m)))\<close>
    by (simp add: default_run log_defs)
  have g: "hex_node_id_to_decimal plain_ucd
       (py_split 47 (u ''msh/EU_868/2/json/LongFast/!aabbccdd'') ! 5) = Inr 2864434397"
    by (simp add: split_uplink decimal_aabbccdd)
  have "on_message plain_ucd (default_config\<lparr>BOT_NODE_ID := u ''!11111111''\<rparr>) utc_clock ?m
     = on_message plain_ucd (default_config\<lparr>BOT_NODE_ID := u ''!22222222''\<rparr>) utc_clock ?m"
    using gateway_identity_from_topic [where U = plain_ucd and cfg = default_config
        and a = "u ''!11111111''" and b = "u ''!22222222''" and clk = utc_clock
        and message = ?m]
    by blast
  with p g show ?thesis
    by blast
qed

text \<open>
  \<^bold>\<open>C7\<close>. The claim is that a message which reaches reply construction (at least six
  topic segments, a channel other than \<open>mqtt\<close>, type \<open>text\<close>, the trigger present, a
  sender present) is rejected without an exception when its gateway identifier lacks
  the leading exclamation mark, or has it but leaves, with that mark stripped, a string
  that is no base-16 number. The handler departs from this in two places. A sender that
  is present but no integer never reaches the gateway check: \<open>hex\<close> in the argument
  list of the request log call raises \<open>TypeError\<close>, which leaves the handler whatever the
  gateway identifier is. And the conversion strips with \<open>lstrip\<close>, which removes every
  leading exclamation mark: for an integer sender and a gateway identifier that begins
  with the mark, a reply is published as soon as \<open>int\<close> accepts what is left after all
  the marks, whether or not the string after the first mark is a base-16 number.
\<close>

theorem gateway_check_escapes:
  assumes "6 \<le> length (py_split 47 (topic m))"
    and "py_split 47 (topic m) ! 4 \<noteq> u ''mqtt''"
    and "loads_payload (payload m) = Inr (JObject d)"
    and "dict_get d (u ''type'') (JString []) = JString (u ''text'')"
    and "dict_get d (u ''payload'') (JString []) = JString p"
    and "py_in (TIME_TRIGGER cfg) (py_lower U p)"
    and "dict_get d (u ''from'') JNull \<noteq> JNull"
  shows
    "(\<not> is_py_int (dict_get d (u ''from'') JNull)
        \<longrightarrow> on_message U cfg clk m = ([], Raised TypeError))
     \<and> (is_py_int (dict_get d (u ''from'') JNull)
          \<and> py_split 47 (topic m) ! 5 = 33 # rest
          \<and> py_int16 U (py_lstrip 33 rest) = Inr g
          \<and> clk (TIMEZONE cfg) = Some now
        \<longrightarrow> published (fst (on_message U cfg clk m))
            = [(u ''msh/'' @ py_split 47 (topic m) ! 1 @ u ''/2/json/mqtt/'',
                json_dumps (JObject
                  [(u ''from'', JInt g),
                   (u ''type'', JString (u ''sendtext'')),
                   (u ''payload'', JString (u ''Current time: '' @ strftime now)),
                   (u ''to'', dict_get d (u ''from'') JNull)]))])"
proof (intro conjI impI)
  assume "\<not> is_py_int (dict_get d (u ''from'') JNull)"
  with assms show "on_message U cfg clk m = ([], Raised TypeError)"
    by (rule sender_not_integer_path)
next
  assume a: "is_py_int (dict_get d (u ''from'') JNull)
          \<and> py_split 47 (topic m) ! 5 = 33 # rest
          \<and> py_int16 U (py_lstrip 33 rest) = Inr g
          \<and> clk (TIMEZONE cfg) = Some now"
  then obtain sender_hex where hx: "py_hex (dict_get d (u ''from'') JNull) = Inr sender_hex"
    by (auto simp: is_py_int_iff)
  from a have st: "py_startswith (py_split 47 (topic m) ! 5) (u ''!'')"
    by (simp add: u_def)
  from a have gw: "hex_node_id_to_decimal U (py_split 47 (topic m) ! 5) = Inr g"
    by (simp add: hex_node_id_to_decimal_def py_lstrip_def)
  from a have ck: "clk (TIMEZONE cfg) = Some now"
    by simp
  show "published (fst (on_message U cfg clk m))
            = [(u ''msh/'' @ py_split 47 (topic m) ! 1 @ u ''/2/json/mqtt/'',
                json_dumps (JObject
                  [(u ''from'', JInt g),
                   (u ''type'', JString (u ''sendtext'')),
                   (u ''payload'', JString (u ''Current time: '' @ strftime now)),
                   (u ''to'', dict_get d (u ''from'') JNull)]))]"
    using reply_path [where m = m and d = d and p = p and cfg = cfg and U = U
        and sender_hex = sender_hex and g = g and clk = clk and now = now,
        OF assms(1-6) hx st gw ck]
    by (simp add: log_defs)
qed

theorem gateway_check_escapes_witness:
  \<open>dict_get [(u ''type'', JString (u ''text'')),
             (u ''payload'', JString (u ''!time'')),
             (u ''from'', JString (u ''abc''))] (u ''from'') JNull \<noteq> JNull
   \<and> \<not> py_startswith (u ''aabbccdd'') (u ''!'')
   \<and> on_message plain_ucd default_config utc_clock
       \<lparr> topic = u ''msh/EU_868/2/json/LongFast/aabbccdd'',
         payload = ''{"type":"text","payload":"!time","from":"abc"}'' \<rparr>
     = ([], Raised TypeError)
   \<and> py_int16 plain_ucd (u ''!ff'') = Inl ValueError
   \<and> published (fst (on_message plain_ucd default_config utc_clock
       \<lparr> topic = u ''msh/EU_868/2/json/LongFast/!!ff'',
         payload = ''{"type":"text","payload":"!time","from":123456}'' \<rparr>))
     = [(u ''msh/EU_868/2/json/mqtt/'',
         u ''{"from": 255, "type": "sendtext", "payload": "Current time: 2024-03-09 07:05:00 UTC", "to": 123456}'')]\<close>
proof -
  let ?a = \<open>\<lparr> topic = u ''msh/EU_868/2/json/LongFast/aabbccdd'',
         payload = ''{"type":"text","payload":"!time","from":"abc"}'' \<rparr>\<close>
  let ?b = \<open>\<lparr> topic = u ''msh/EU_868/2/json/LongFast/!!ff'',
         payload = ''{"type":"text","payload":"!time","from":123456}'' \<rparr>\<close>
  let ?da = "[(u ''type'', JString (u ''text'')),
             (u ''payload'', JString (u ''!time'')),
             (u ''from'', JString (u ''abc''))]"
  let ?db = "[(u ''type'', JString (u ''text'')),
             (u ''payload'', JString (u ''!time'')),
             (u ''from'', JInt 123456)]"
  let ?now = "\<lparr> year = 2024, month = 3, day = 9, hour = 7, minute = 5, second = 0,
              tzname = u ''UTC'' \<rparr>"
  have la: "6 \<le> length (py_split 47 (topic ?a))" and lb: "6 \<le> length (py_split 47 (topic ?b))"
    by (simp_all add: split_no_bang split_double_bang)
  have ca: "py_split 47 (topic ?a) ! 4 \<noteq> u ''mqtt''"
    and cb: "py_split 47 (topic ?b) ! 4 \<noteq> u ''mqtt''"
    by (simp_all add: split_no_bang split_double_bang)
  have da: "loads_payload (payload ?a) = Inr (JObject ?da)"
    using loads_text_sender by simp
  have db: "loads_payload (payload ?b) = Inr (JObject ?db)"
    using loads_plain_request by simp
  have tya: "dict_get ?da (u ''type'') (JString []) = JString (u ''text'')"
    and txa: "dict_get ?da (u ''payload'') (JString []) = JString (u ''!time'')"
    and nna: "dict_get ?da (u ''from'') JNull \<noteq> JNull"
    and nia: "\<not> is_py_int (dict_get ?da (u ''from'') JNull)"
    by (simp_all add: is_py_int_def)
  have tyb: "dict_get ?db (u ''type'') (JString []) = JString (u ''text'')"
    and txb: "dict_get ?db (u ''payload'') (JString []) = JString (u ''!time'')"
    and nnb: "dict_get ?db (u ''from'') JNull \<noteq> JNull"
    and ib: "is_py_int (dict_get ?db (u ''from'') JNull)"
    by (simp_all add: is_py_int_def)
  have "py_in (u ''!time'') (u ''!time'')"
    by (simp add: u_def)
  then have tr: "py_in (TIME_TRIGGER default_config) (py_lower plain_ucd (u ''!time''))"
    by (simp add: default_trigger lower_trigger)
  have ns: "\<not> py_startswith (u ''aabbccdd'') (u ''!'')"
    by (simp add: u_def)
  have a: "on_message plain_ucd default_config utc_clock ?a = ([], Raised TypeError)"
    using gateway_check_escapes [where m = ?a and d = ?da and p = "u ''!time''"
        and cfg = default_config and U = plain_ucd and clk = utc_clock,
        OF la ca da tya txa tr nna] nia
    by blast
  have g5: "py_split 47 (topic ?b) ! 5 = 33 # u ''!ff''"
    by (simp add: split_double_bang) (simp add: u_def)
  have gv: "py_int16 plain_ucd (py_lstrip 33 (u ''!ff'')) = Inr 255"
    by (simp add: int16_defs)
  have z: "utc_clock (TIMEZONE default_config) = Some ?now"
    by (simp only: default_timezone utc_clock_UTC)
  have tp: "u ''msh/'' @ py_split 47 (topic ?b) ! 1 @ u ''/2/json/mqtt/''
     = u ''msh/EU_868/2/json/mqtt/''"
    by (simp add: split_double_bang) (simp add: u_def)
  have tx: \<open>json_dumps (JObject
                  [(u ''from'', JInt 255),
                   (u ''type'', JString (u ''sendtext'')),
                   (u ''payload'', JString (u ''Current time: '' @ strftime ?now)),
                   (u ''to'', dict_get ?db (u ''from'') JNull)])
     = u ''{"from": 255, "type": "sendtext", "payload": "Current time: 2024-03-09 07:05:00 UTC", "to": 123456}''\<close>
    using response_text [of 255 "strftime ?now" "JInt 123456"]
    by (simp add: response_def clock_text clock_text_escaped str_255 str_123456) (simp add: u_def)
  have b: \<open>published (fst (on_message plain_ucd default_config utc_clock ?b))
     = [(u ''msh/EU_868/2/json/mqtt/'',
         u ''{"from": 255, "type": "sendtext", "payload": "Current time: 2024-03-09 07:05:00 UTC", "to": 123456}'')]\<close>
    using gateway_check_escapes [where m = ?b and d = ?db and p = "u ''!time''"
        and cfg = default_config and U = plain_ucd and clk = utc_clock
        and rest = "u ''!ff''" and g = 255 and now = ?now,
        OF lb cb db tyb txb tr nnb] ib g5 gv z
    unfolding tp tx
    by blast
  from nna ns a lenient_gateway_ids(1) [of plain_ucd] b show ?thesis
    by blast
qed

text \<open>
  What the gateway check does do, for a sender that is an integer (a JSON boolean
  counting as one, as in Python): without the leading exclamation mark the handler logs
  the request, logs a warning and returns; with it, and with \<open>int\<close> refusing what
  \<open>lstrip\<close> leaves, the handler logs the request, logs an error and returns.
\<close>

lemma gateway_id_checked:
  assumes "6 \<le> length (py_split 47 (topic m))"
    and "py_split 47 (topic m) ! 4 \<noteq> u ''mqtt''"
    and "loads_payload (payload m) = Inr (JObject d)"
    and "dict_get d (u ''type'') (JString []) = JString (u ''text'')"
    and "dict_get d (u ''payload'') (JString []) = JString p"
    and "py_in (TIME_TRIGGER cfg) (py_lower U p)"
    and "is_py_int (dict_get d (u ''from'') JNull)"
  shows
    "\<exists>sender_hex.
       py_hex (dict_get d (u ''from'') JNull) = Inr sender_hex
       \<and> (\<not> py_startswith (py_split 47 (topic m) ! 5) (u ''!'')
          \<longrightarrow> on_message U cfg clk m
              = ([log_request sender_hex (py_split 47 (topic m) ! 5)
                    (py_split 47 (topic m) ! 4) (py_split 47 (topic m) ! 1),
                  log_gateway_format (py_split 47 (topic m) ! 5)], Returned))
       \<and> (py_startswith (py_split 47 (topic m) ! 5) (u ''!'')
            \<and> (\<forall>n. py_int16 U (py_lstrip 33 (py_split 47 (topic m) ! 5)) \<noteq> Inr n)
          \<longrightarrow> on_message U cfg clk m
              = ([log_request sender_hex (py_split 47 (topic m) ! 5)
                    (py_split 47 (topic m) ! 4) (py_split 47 (topic m) ! 1),
                  log_gateway_value (py_split 47 (topic m) ! 5)], Returned))"
proof -
  from assms(7) obtain sender_hex where
    hx: "py_hex (dict_get d (u ''from'') JNull) = Inr sender_hex"
    by (auto simp: is_py_int_iff)
  have nn: "dict_get d (u ''from'') JNull \<noteq> JNull"
    using hx by (rule py_hex_not_null)
  have a: "on_message U cfg clk m
              = ([log_request sender_hex (py_split 47 (topic m) ! 5)
                    (py_split 47 (topic m) ! 4) (py_split 47 (topic m) ! 1),
                  log_gateway_format (py_split 47 (topic m) ! 5)], Returned)"
    if "\<not> py_startswith (py_split 47 (topic m) ! 5) (u ''!'')"
    using assms hx nn that
    by (simp add: on_message_def Let_def py_get_def is_str_def str_value_def log_defs)
  have b: "on_message U cfg clk m
              = ([log_request sender_hex (py_split 47 (topic m) ! 5)
                    (py_split 47 (topic m) ! 4) (py_split 47 (topic m) ! 1),
                  log_gateway_value (py_split 47 (topic m) ! 5)], Returned)"
    if s: "py_startswith (py_split 47 (topic m) ! 5) (u ''!'')"
      and v: "\<forall>n. py_int16 U (py_lstrip 33 (py_split 47 (topic m) ! 5)) \<noteq> Inr n"
  proof -
    from v obtain e where e: "py_int16 U (py_lstrip 33 (py_split 47 (topic m) ! 5)) = Inl e"
      by (cases "py_int16 U (py_lstrip 33 (py_split 47 (topic m) ! 5))") auto
    then have "e = ValueError" by (rule py_int16_raises)
    with e have "hex_node_id_to_decimal U (py_split 47 (topic m) ! 5) = Inl ValueError"
      by (simp add: hex_node_id_to_decimal_def)
    then show ?thesis
      using assms hx nn s
      by (simp add: on_message_def Let_def py_get_def is_str_def str_value_def log_defs)
  qed
  from hx a b show ?thesis by blast
qed

text \<open>
  \<^bold>\<open>C8\<close>. For every valid hex gateway identifier \<open>h\<close>, an exclamation mark followed by
  one or more hexadecimal digits, \<open>hex_node_id_to_decimal\<close> returns a number \<open>n\<close>, and
  rendering \<open>n\<close> back as a hex identifier and converting again returns \<open>n\<close>. The rendering
  \<open>hexOf\<close> is the spec's, the source has none.
\<close>

theorem hex_round_trip:
  "valid_hex_id h \<Longrightarrow>
   \<exists>n. hex_node_id_to_decimal U h = Inr n \<and> hex_node_id_to_decimal U (hexOf n) = Inr n"
  using hex_node_id_to_decimal_valid [of h U] decimal_of_hexOf [of "int (hex_value 0 (tl h))" U]
  by simp

theorem hex_round_trip_witness:
  "valid_hex_id (u ''!aabbccdd'')
   \<and> hex_node_id_to_decimal plain_ucd (u ''!aabbccdd'') = Inr 2864434397
   \<and> hexOf 2864434397 = u ''!aabbccdd''
   \<and> hex_node_id_to_decimal plain_ucd (hexOf 2864434397) = Inr 2864434397"
proof -
  have v: "valid_hex_id (u ''!aabbccdd'')"
    by (simp add: valid_hex_id_def is_hex_digit_def hex_digit_value_def u_def)
  have h: "hexOf 2864434397 = u ''!aabbccdd''"
    by (simp add: hexOf_def hex_digits.simps hex_char_def u_def)
  from hex_round_trip [OF v, of plain_ucd] obtain n where
    n: "hex_node_id_to_decimal plain_ucd (u ''!aabbccdd'') = Inr n"
    and r: "hex_node_id_to_decimal plain_ucd (hexOf n) = Inr n"
    by blast
  from n have "n = 2864434397"
    by (simp add: decimal_aabbccdd)
  with v h n r show ?thesis
    by simp
qed

text \<open>
  \<^bold>\<open>C9\<close>. The rejection reasons are tried in the order: \<open>mqtt\<close> channel, type other
  than \<open>text\<close> or payload no string, trigger absent, sender absent; the first that
  applies decides. For a topic of at least six segments and a payload that decodes to
  the object \<open>d\<close>: on the \<open>mqtt\<close> channel the handler is silent whatever \<open>d\<close> holds; off
  it, with a type other than \<open>text\<close> or a payload that is no string, it is silent
  whatever trigger and sender are; with a text that lacks the trigger it is silent
  whether or not the sender is there; with a text that holds the trigger and no sender
  (no \<open>from\<close> key, or \<open>null\<close> for it, which \<open>data.get\<close> does not tell apart) it logs the
  warning and returns. And the warning about the missing sender is logged only then:
  whenever it appears among the calls, the message is a text message off the \<open>mqtt\<close>
  channel that holds the trigger and has no sender.
\<close>

theorem rejection_order:
  "(6 \<le> length (py_split 47 (topic m)) \<and> py_split 47 (topic m) ! 4 = u ''mqtt''
      \<longrightarrow> on_message U cfg clk m = silent)
   \<and> (6 \<le> length (py_split 47 (topic m)) \<and> py_split 47 (topic m) ! 4 \<noteq> u ''mqtt''
        \<and> loads_payload (payload m) = Inr (JObject d)
        \<and> (dict_get d (u ''type'') (JString []) \<noteq> JString (u ''text'')
             \<or> \<not> is_str (dict_get d (u ''payload'') (JString [])))
      \<longrightarrow> on_message U cfg clk m = silent)
   \<and> (6 \<le> length (py_split 47 (topic m)) \<and> py_split 47 (topic m) ! 4 \<noteq> u ''mqtt''
        \<and> loads_payload (payload m) = Inr (JObject d)
        \<and> dict_get d (u ''type'') (JString []) = JString (u ''text'')
        \<and> dict_get d (u ''payload'') (JString []) = JString p
        \<and> \<not> py_in (TIME_TRIGGER cfg) (py_lower U p)
      \<longrightarrow> on_message U cfg clk m = silent)
   \<and> (6 \<le> length (py_split 47 (topic m)) \<and> py_split 47 (topic m) ! 4 \<noteq> u ''mqtt''
        \<and> loads_payload (payload m) = Inr (JObject d)
        \<and> dict_get d (u ''type'') (JString []) = JString (u ''text'')
        \<and> dict_get d (u ''payload'') (JString []) = JString p
        \<and> py_in (TIME_TRIGGER cfg) (py_lower U p)
        \<and> dict_get d (u ''from'') JNull = JNull
      \<longrightarrow> on_message U cfg clk m = ([log_sender_missing (JObject d)], Returned))
   \<and> ((\<exists>data. log_sender_missing data \<in> set (fst (on_message U cfg clk m)))
      \<longrightarrow> (\<exists>d' p'. 6 \<le> length (py_split 47 (topic m))
            \<and> py_split 47 (topic m) ! 4 \<noteq> u ''mqtt''
            \<and> loads_payload (payload m) = Inr (JObject d')
            \<and> dict_get d' (u ''type'') (JString []) = JString (u ''text'')
            \<and> dict_get d' (u ''payload'') (JString []) = JString p'
            \<and> py_in (TIME_TRIGGER cfg) (py_lower U p')
            \<and> dict_get d' (u ''from'') JNull = JNull))"
proof (intro conjI impI)
  assume "6 \<le> length (py_split 47 (topic m)) \<and> py_split 47 (topic m) ! 4 = u ''mqtt''"
  then show "on_message U cfg clk m = silent"
    by (simp add: on_message_def Let_def silent_def)
next
  assume "6 \<le> length (py_split 47 (topic m)) \<and> py_split 47 (topic m) ! 4 \<noteq> u ''mqtt''
        \<and> loads_payload (payload m) = Inr (JObject d)
        \<and> (dict_get d (u ''type'') (JString []) \<noteq> JString (u ''text'')
             \<or> \<not> is_str (dict_get d (u ''payload'') (JString [])))"
  then show "on_message U cfg clk m = silent"
    by (auto simp: on_message_def Let_def py_get_def silent_def)
next
  assume "6 \<le> length (py_split 47 (topic m)) \<and> py_split 47 (topic m) ! 4 \<noteq> u ''mqtt''
        \<and> loads_payload (payload m) = Inr (JObject d)
        \<and> dict_get d (u ''type'') (JString []) = JString (u ''text'')
        \<and> dict_get d (u ''payload'') (JString []) = JString p
        \<and> \<not> py_in (TIME_TRIGGER cfg) (py_lower U p)"
  then show "on_message U cfg clk m = silent"
    by (simp add: on_message_def Let_def py_get_def is_str_def str_value_def silent_def)
next
  assume "6 \<le> length (py_split 47 (topic m)) \<and> py_split 47 (topic m) ! 4 \<noteq> u ''mqtt''
        \<and> loads_payload (payload m) = Inr (JObject d)
        \<and> dict_get d (u ''type'') (JString []) = JString (u ''text'')
        \<and> dict_get d (u ''payload'') (JString []) = JString p
        \<and> py_in (TIME_TRIGGER cfg) (py_lower U p)
        \<and> dict_get d (u ''from'') JNull = JNull"
  then show "on_message U cfg clk m = ([log_sender_missing (JObject d)], Returned)"
    by (simp add: on_message_def Let_def py_get_def is_str_def str_value_def log_defs)
next
  assume "\<exists>data. log_sender_missing data \<in> set (fst (on_message U cfg clk m))"
  then obtain data where w: "log_sender_missing data \<in> set (fst (on_message U cfg clk m))"
    by blast
  show "\<exists>d' p'. 6 \<le> length (py_split 47 (topic m))
            \<and> py_split 47 (topic m) ! 4 \<noteq> u ''mqtt''
            \<and> loads_payload (payload m) = Inr (JObject d')
            \<and> dict_get d' (u ''type'') (JString []) = JString (u ''text'')
            \<and> dict_get d' (u ''payload'') (JString []) = JString p'
            \<and> py_in (TIME_TRIGGER cfg) (py_lower U p')
            \<and> dict_get d' (u ''from'') JNull = JNull"
  proof (cases "loads_payload (payload m)")
    case (Inl exc)
    with w show ?thesis
      by (auto simp: on_message_def Let_def log_defs split: if_splits)
  next
    case (Inr v)
    show ?thesis
    proof (cases v)
      case (JObject d')
      with w Inr show ?thesis
        by (cases "dict_get d' (u ''payload'') (JString [])")
           (auto simp: on_message_def Let_def py_get_def is_str_def str_value_def log_defs
              split: if_splits sum.splits)
    qed (use w Inr in \<open>auto simp: on_message_def Let_def py_get_def log_defs split: if_splits\<close>)
  qed
qed

theorem rejection_order_witness:
  \<open>loads_payload ''{"type":"text","payload":"hello there"}''
     = Inr (JObject [(u ''type'', JString (u ''text'')),
                     (u ''payload'', JString (u ''hello there''))])
   \<and> \<not> py_in (TIME_TRIGGER default_config) (py_lower plain_ucd (u ''hello there''))
   \<and> dict_get [(u ''type'', JString (u ''text'')),
               (u ''payload'', JString (u ''hello there''))] (u ''from'') JNull = JNull
   \<and> on_message plain_ucd default_config utc_clock
       \<lparr> topic = u ''msh/EU_868/2/json/LongFast/!aabbccdd'',
         payload = ''{"type":"text","payload":"hello there"}'' \<rparr> = silent
   \<and> loads_payload ''{"type":"text","payload":"!time"}''
     = Inr (JObject [(u ''type'', JString (u ''text'')),
                     (u ''payload'', JString (u ''!time''))])
   \<and> py_in (TIME_TRIGGER default_config) (py_lower plain_ucd (u ''!time''))
   \<and> on_message plain_ucd default_config utc_clock
       \<lparr> topic = u ''msh/EU_868/2/json/LongFast/!aabbccdd'',
         payload = ''{"type":"text","payload":"!time"}'' \<rparr>
     = ([log_sender_missing (JObject [(u ''type'', JString (u ''text'')),
                                      (u ''payload'', JString (u ''!time''))])], Returned)\<close>
proof -
  let ?a = \<open>\<lparr> topic = u ''msh/EU_868/2/json/LongFast/!aabbccdd'',
         payload = ''{"type":"text","payload":"hello there"}'' \<rparr>\<close>
  let ?b = \<open>\<lparr> topic = u ''msh/EU_868/2/json/LongFast/!aabbccdd'',
         payload = ''{"type":"text","payload":"!time"}'' \<rparr>\<close>
  let ?da = "[(u ''type'', JString (u ''text'')), (u ''payload'', JString (u ''hello there''))]"
  let ?db = "[(u ''type'', JString (u ''text'')), (u ''payload'', JString (u ''!time''))]"
  have la: "6 \<le> length (py_split 47 (topic ?a))" and lb: "6 \<le> length (py_split 47 (topic ?b))"
    by (simp_all add: split_uplink)
  have ca: "py_split 47 (topic ?a) ! 4 \<noteq> u ''mqtt''"
    and cb: "py_split 47 (topic ?b) ! 4 \<noteq> u ''mqtt''"
    by (simp_all add: split_uplink)
  have da: "loads_payload (payload ?a) = Inr (JObject ?da)"
    using loads_hello by simp
  have db: "loads_payload (payload ?b) = Inr (JObject ?db)"
    using loads_no_sender by simp
  have tya: "dict_get ?da (u ''type'') (JString []) = JString (u ''text'')"
    and txa: "dict_get ?da (u ''payload'') (JString []) = JString (u ''hello there'')"
    and fra: "dict_get ?da (u ''from'') JNull = JNull"
    by simp_all
  have tyb: "dict_get ?db (u ''type'') (JString []) = JString (u ''text'')"
    and txb: "dict_get ?db (u ''payload'') (JString []) = JString (u ''!time'')"
    and frb: "dict_get ?db (u ''from'') JNull = JNull"
    by simp_all
  have "\<not> py_in (u ''!time'') (u ''hello there'')"
    by (simp add: u_def)
  then have na: "\<not> py_in (TIME_TRIGGER default_config) (py_lower plain_ucd (u ''hello there''))"
    by (simp add: default_trigger lower_hello)
  have "py_in (u ''!time'') (u ''!time'')"
    by (simp add: u_def)
  then have tb: "py_in (TIME_TRIGGER default_config) (py_lower plain_ucd (u ''!time''))"
    by (simp add: default_trigger lower_trigger)
  have a: "on_message plain_ucd default_config utc_clock ?a = silent"
    using rejection_order [where m = ?a and d = ?da and p = "u ''hello there''"
        and cfg = default_config and U = plain_ucd and clk = utc_clock]
      la ca da tya txa na
    by blast
  have b: "on_message plain_ucd default_config utc_clock ?b
     = ([log_sender_missing (JObject ?db)], Returned)"
    using rejection_order [where m = ?b and d = ?db and p = "u ''!time''"
        and cfg = default_config and U = plain_ucd and clk = utc_clock]
      lb cb db tyb txb tb frb
    by blast
  from loads_hello na fra a loads_no_sender tb b show ?thesis
    by blast
qed

text \<open>
  \<^bold>\<open>C10\<close>. For every inbound message, whatever its topic and payload bytes, one
  invocation of the handler publishes at most once; and when it publishes, the topic
  has at least six segments and the outbound topic is \<open>msh/\<close>, the second segment of
  the inbound topic, and \<open>/2/json/mqtt/\<close>.
\<close>

theorem at_most_one_publish:
  "length (published (fst (on_message U cfg clk message))) \<le> 1 \<and>
   (\<forall>t p. (t, p) \<in> set (published (fst (on_message U cfg clk message))) \<longrightarrow>
      6 \<le> length (py_split 47 (topic message))
      \<and> t = u ''msh/'' @ py_split 47 (topic message) ! 1 @ u ''/2/json/mqtt/'')"
  unfolding on_message_def Let_def
  by (simp split: sum.splits)

theorem at_most_one_publish_witness:
  \<open>published (fst (on_message plain_ucd default_config utc_clock
       \<lparr> topic = u ''msh/EU_868/2/json/LongFast/!aabbccdd'',
         payload = ''{"type":"text","payload":"hey !time please","from":123456}'' \<rparr>))
     = [(u ''msh/EU_868/2/json/mqtt/'',
         u ''{"from": 2864434397, "type": "sendtext", "payload": "Current time: 2024-03-09 07:05:00 UTC", "to": 123456}'')]
   \<and> py_split 47 (u ''msh/EU_868/2/json/LongFast/!aabbccdd'') ! 1 = u ''EU_868''
   \<and> u ''msh/EU_868/2/json/mqtt/''
     = u ''msh/'' @ py_split 47 (u ''msh/EU_868/2/json/LongFast/!aabbccdd'') ! 1
       @ u ''/2/json/mqtt/''
   \<and> length (published (fst (on_message plain_ucd default_config utc_clock
       \<lparr> topic = u ''msh/EU_868/2/json/LongFast/!aabbccdd'',
         payload = ''{"type":"text","payload":"hey !time please","from":123456}'' \<rparr>))) \<le> 1\<close>
proof -
  let ?m = \<open>\<lparr> topic = u ''msh/EU_868/2/json/LongFast/!aabbccdd'',
         payload = ''{"type":"text","payload":"hey !time please","from":123456}'' \<rparr>\<close>
  let ?p = \<open>u ''{"from": 2864434397, "type": "sendtext", "payload": "Current time: 2024-03-09 07:05:00 UTC", "to": 123456}''\<close>
  have p: "published (fst (on_message plain_ucd default_config utc_clock ?m))
     = [(u ''msh/EU_868/2/json/mqtt/'', ?p)]"
    by (simp add: default_run log_defs)
  have s: "py_split 47 (u ''msh/EU_868/2/json/LongFast/!aabbccdd'') ! 1 = u ''EU_868''"
    by (simp add: split_uplink)
  have "(u ''msh/EU_868/2/json/mqtt/'', ?p)
     \<in> set (published (fst (on_message plain_ucd default_config utc_clock ?m)))"
    by (simp add: p)
  then have t: "u ''msh/EU_868/2/json/mqtt/''
     = u ''msh/'' @ py_split 47 (topic ?m) ! 1 @ u ''/2/json/mqtt/''"
    and n: "length (published (fst (on_message plain_ucd default_config utc_clock ?m))) \<le> 1"
    using at_most_one_publish [where U = plain_ucd and cfg = default_config
        and clk = utc_clock and message = ?m]
    by blast+
  from t have "u ''msh/EU_868/2/json/mqtt/''
     = u ''msh/'' @ py_split 47 (u ''msh/EU_868/2/json/LongFast/!aabbccdd'') ! 1
       @ u ''/2/json/mqtt/''"
    by simp
  with p s n show ?thesis
    by blast
qed

end
